theory Spec2Isabelle
  imports Complex_Main "HOL-Library.List_Lexorder" "HOL-Library.Char_ord" "HOL-Library.Multiset"
begin

section \<open>Numbers, configuration and balances\<close>

text \<open>
  The bot computes with JavaScript numbers. They are modelled as exact rationals: every
  statement below is about the arithmetic the source writes down, not about IEEE-754
  rounding. The concrete inputs used in evaluations are chosen so that the
  rational result and the double result agree on which side of a comparison they fall.
\<close>

type_synonym number = rat

text \<open>\<open>BotConfig\<close> of \<open>config.ts\<close>: the fields the trading engine reads.\<close>

record BotConfig =
  preferredTokenKey :: string
  galaTokenKey :: string
  minimumGalaBalance :: number
  maxSlippage :: number
  tradeAmountPercentage :: number
  walletAddress :: string
  enableTrading :: bool

text \<open>\<open>TokenBalance\<close> and \<open>BalanceSummary\<close> of \<open>balance-manager.ts\<close>.\<close>

record TokenBalance =
  tokenKey :: string
  symbol :: string
  quantity :: number
  decimals :: nat

record BalanceSummary =
  preferredTokenBalance :: number
  galaTokenBalance :: number
  otherTokens :: "TokenBalance list"
  totalTokens :: nat

text \<open>The anonymous element type of the array returned by \<open>getTokensToTrade\<close>.\<close>

record TradeIntent =
  token :: TokenBalance
  targetToken :: string
  amount :: number

subsection \<open>Assets as the transport delivers them\<close>

text \<open>
  An asset is a dynamic object. \<open>constructTokenKey\<close> reads \<open>tokenClassKey\<close>,
  \<open>tokenClass\<close>, or the asset itself, and from the chosen object the four key fields;
  an absent field is \<open>None\<close>, and an empty string is falsy as in JavaScript.
\<close>

record TokenClassObj =
  collection :: "string option"
  category :: "string option"
  type_field :: "string option"
  additionalKey :: "string option"

datatype Quantity = QNumber number | QString string

record Asset =
  tokenClassKey :: "TokenClassObj option"
  tokenClass :: "TokenClassObj option"
  flat :: TokenClassObj
  asset_symbol :: "string option"
  asset_quantity :: Quantity
  asset_decimals :: "nat option"

text \<open>\<open>x || d\<close> on an optional string: the default replaces undefined and the empty string.\<close>

definition or_str :: "string option \<Rightarrow> string \<Rightarrow> string" where
  "or_str x d = (case x of None \<Rightarrow> d | Some s \<Rightarrow> if s = [] then d else s)"

definition or_nat :: "nat option \<Rightarrow> nat \<Rightarrow> nat" where
  "or_nat x d = (case x of None \<Rightarrow> d | Some n \<Rightarrow> if n = 0 then d else n)"

definition constructTokenKey :: "Asset \<Rightarrow> string" where
  "constructTokenKey a =
     (let tc = (case tokenClassKey a of Some k \<Rightarrow> k
                | None \<Rightarrow> (case tokenClass a of Some k \<Rightarrow> k | None \<Rightarrow> flat a));
          coll = or_str (collection tc) (or_str (asset_symbol a) ''unknown'');
          cat = or_str (category tc) ''Unit'';
          ty = or_str (type_field tc) ''none'';
          ak = or_str (additionalKey tc) ''none''
      in coll @ ''|'' @ cat @ ''|'' @ ty @ ''|'' @ ak)"

text \<open>\<open>parseBalance\<close>; JavaScript's \<open>parseFloat\<close> is a parameter.\<close>

definition parseBalance :: "(string \<Rightarrow> number) \<Rightarrow> Quantity \<Rightarrow> number" where
  "parseBalance pf q = (case q of QNumber n \<Rightarrow> n | QString s \<Rightarrow> pf s)"

subsection \<open>getBalances\<close>

text \<open>The three locals of the loop in \<open>getBalances\<close>, threaded through one iteration.\<close>

record BalanceAcc =
  acc_preferred :: number
  acc_gala :: number
  acc_others :: "TokenBalance list"

definition balances_step :: "BotConfig \<Rightarrow> (string \<Rightarrow> number) \<Rightarrow> BalanceAcc \<Rightarrow> Asset \<Rightarrow> BalanceAcc" where
  "balances_step cfg pf acc a =
     (let key = constructTokenKey a;
          bal = parseBalance pf (asset_quantity a)
      in if key = preferredTokenKey cfg then
           (let acc1 = acc\<lparr>acc_preferred := bal\<rparr>
            in if key = galaTokenKey cfg then acc1\<lparr>acc_gala := bal\<rparr> else acc1)
         else if key = galaTokenKey cfg then acc\<lparr>acc_gala := bal\<rparr>
         else acc\<lparr>acc_others := acc_others acc @
                [\<lparr>tokenKey = key, symbol = or_str (asset_symbol a) ''UNKNOWN'',
                  quantity = bal, decimals = or_nat (asset_decimals a) 8\<rparr>]\<rparr>)"

fun balances_loop :: "BotConfig \<Rightarrow> (string \<Rightarrow> number) \<Rightarrow> BalanceAcc \<Rightarrow> Asset list \<Rightarrow> BalanceAcc" where
  "balances_loop cfg pf acc [] = acc"
| "balances_loop cfg pf acc (a # as) = balances_loop cfg pf (balances_step cfg pf acc a) as"

text \<open>The reply of \<open>getUserAssets\<close>: the page of tokens and the total count.\<close>

record AssetsReply =
  reply_tokens :: "Asset list"
  reply_count :: nat

datatype error = Error string

definition getBalances ::
  "BotConfig \<Rightarrow> (string \<Rightarrow> number) \<Rightarrow> error + AssetsReply \<Rightarrow> error + BalanceSummary" where
  "getBalances cfg pf reply =
     (case reply of
        Inl e \<Rightarrow> Inl e
      | Inr assets \<Rightarrow>
          (let acc = balances_loop cfg pf
                       \<lparr>acc_preferred = 0, acc_gala = 0, acc_others = []\<rparr> (reply_tokens assets)
           in Inr \<lparr>preferredTokenBalance = acc_preferred acc,
                   galaTokenBalance = acc_gala acc,
                   otherTokens = acc_others acc,
                   totalTokens = reply_count assets\<rparr>))"

subsection \<open>Deriving trade intents\<close>

definition shouldMaintainGalaBalance :: "BotConfig \<Rightarrow> BalanceSummary \<Rightarrow> bool" where
  "shouldMaintainGalaBalance cfg b = (galaTokenBalance b < minimumGalaBalance cfg)"

definition canTradeExcessGala :: "BotConfig \<Rightarrow> BalanceSummary \<Rightarrow> bool" where
  "canTradeExcessGala cfg b = (galaTokenBalance b > minimumGalaBalance cfg * 2)"

definition calculateTradeAmount :: "BotConfig \<Rightarrow> number \<Rightarrow> bool \<Rightarrow> number" where
  "calculateTradeAmount cfg tokenBalance isGala =
     (if isGala then
        (let excess = tokenBalance - minimumGalaBalance cfg
         in if excess \<le> 0 then 0
            else excess * (tradeAmountPercentage cfg / 100) * (1 / 2))
      else
        (let amt = tokenBalance * (tradeAmountPercentage cfg / 100)
         in if amt > 1 / 1000000 then amt else 0))"

text \<open>One \<open>for (const token of balance.otherTokens)\<close> loop, pushing onto \<open>trades\<close>.\<close>

fun other_trades :: "BotConfig \<Rightarrow> string \<Rightarrow> TokenBalance list \<Rightarrow> TradeIntent list" where
  "other_trades cfg target [] = []"
| "other_trades cfg target (t # ts) =
     (let amt = calculateTradeAmount cfg (quantity t) False
      in if amt > 0
         then \<lparr>token = t, targetToken = target, amount = amt\<rparr> # other_trades cfg target ts
         else other_trades cfg target ts)"

definition excess_gala_trades :: "BotConfig \<Rightarrow> BalanceSummary \<Rightarrow> TradeIntent list" where
  "excess_gala_trades cfg b =
     (if canTradeExcessGala cfg b \<and> preferredTokenKey cfg \<noteq> galaTokenKey cfg then
        (let galaAmount = calculateTradeAmount cfg (galaTokenBalance b) True
         in if galaAmount > 0
            then [\<lparr>token = \<lparr>tokenKey = galaTokenKey cfg, symbol = ''GALA'',
                             quantity = galaTokenBalance b, decimals = 8\<rparr>,
                   targetToken = preferredTokenKey cfg, amount = galaAmount\<rparr>]
            else [])
      else [])"

definition getTokensToTrade :: "BotConfig \<Rightarrow> BalanceSummary \<Rightarrow> TradeIntent list" where
  "getTokensToTrade cfg b =
     (if shouldMaintainGalaBalance cfg b
      then other_trades cfg (galaTokenKey cfg) (otherTokens b) else [])
     @ other_trades cfg (preferredTokenKey cfg) (otherTokens b)
     @ excess_gala_trades cfg b"

section \<open>Pool snapshots and circular paths\<close>

text \<open>
  \<open>PoolData\<close> of \<open>pool-data-manager.ts\<close>. Of the composite snapshot only the global
  liquidity is read by the code modelled here; ticks and prices are consumed by the
  external quote routine alone.
\<close>

record CompositePool =
  liquidity :: number

record PoolData =
  token0 :: string
  token1 :: string
  fee :: nat
  compositePool :: CompositePool
  lastUpdated :: int

text \<open>
  The path finder compares pools with \<open>!==\<close>, that is by object identity. A pool
  object is therefore its heap address together with its contents.
\<close>

type_synonym PoolObj = "nat \<times> PoolData"

record CircularPath =
  tokens :: "string list"
  pools :: "PoolObj list"
  fees :: "nat list"
  hops :: nat

type_synonym AdjacencyMap = "string \<Rightarrow> (string \<times> PoolObj) list"

text \<open>
  \<open>buildAdjacencyMap\<close>: a key that was never set reads as the empty array, which is
  what every reader of the map does with \<open>get(k) || []\<close>.
\<close>

definition add_edge :: "AdjacencyMap \<Rightarrow> string \<Rightarrow> string \<times> PoolObj \<Rightarrow> AdjacencyMap" where
  "add_edge m k e = m(k := m k @ [e])"

fun buildAdjacencyMap_loop :: "AdjacencyMap \<Rightarrow> PoolObj list \<Rightarrow> AdjacencyMap" where
  "buildAdjacencyMap_loop m [] = m"
| "buildAdjacencyMap_loop m (p # ps) =
     buildAdjacencyMap_loop
       (add_edge (add_edge m (token0 (snd p)) (token1 (snd p), p))
                 (token1 (snd p)) (token0 (snd p), p)) ps"

definition buildAdjacencyMap :: "PoolObj list \<Rightarrow> AdjacencyMap" where
  "buildAdjacencyMap ps = buildAdjacencyMap_loop (\<lambda>_. []) ps"

definition findTwoHopCycles :: "string \<Rightarrow> AdjacencyMap \<Rightarrow> CircularPath list" where
  "findTwoHopCycles baseToken adj =
     concat (map (\<lambda>(tokenB, pool1).
       concat (map (\<lambda>(returnToken, pool2).
         if returnToken = baseToken \<and> fst pool1 \<noteq> fst pool2
         then [\<lparr>tokens = [baseToken, tokenB, baseToken], pools = [pool1, pool2],
                 fees = [fee (snd pool1), fee (snd pool2)], hops = 2\<rparr>]
         else []) (adj tokenB))) (adj baseToken))"

definition findThreeHopCycles :: "string \<Rightarrow> AdjacencyMap \<Rightarrow> CircularPath list" where
  "findThreeHopCycles baseToken adj =
     concat (map (\<lambda>(tokenB, pool1).
       if tokenB = baseToken then []
       else concat (map (\<lambda>(tokenC, pool2).
         if tokenC = baseToken \<or> tokenC = tokenB then []
         else concat (map (\<lambda>(returnToken, pool3).
           if returnToken = baseToken
           then [\<lparr>tokens = [baseToken, tokenB, tokenC, baseToken],
                   pools = [pool1, pool2, pool3],
                   fees = [fee (snd pool1), fee (snd pool2), fee (snd pool3)], hops = 3\<rparr>]
           else []) (adj tokenC))) (adj tokenB))) (adj baseToken))"

definition findFourHopCycles :: "string \<Rightarrow> AdjacencyMap \<Rightarrow> CircularPath list" where
  "findFourHopCycles baseToken adj =
     concat (map (\<lambda>(tokenB, pool1).
       if tokenB = baseToken then []
       else concat (map (\<lambda>(tokenC, pool2).
         if tokenC = baseToken \<or> tokenC = tokenB then []
         else concat (map (\<lambda>(tokenD, pool3).
           if tokenD = baseToken \<or> tokenD = tokenB \<or> tokenD = tokenC then []
           else concat (map (\<lambda>(returnToken, pool4).
             if returnToken = baseToken
             then [\<lparr>tokens = [baseToken, tokenB, tokenC, tokenD, baseToken],
                     pools = [pool1, pool2, pool3, pool4],
                     fees = [fee (snd pool1), fee (snd pool2), fee (snd pool3), fee (snd pool4)],
                     hops = 4\<rparr>]
             else []) (adj tokenD))) (adj tokenC))) (adj tokenB))) (adj baseToken))"

definition findCircularPaths ::
  "string \<Rightarrow> nat \<Rightarrow> PoolObj list \<Rightarrow> number \<Rightarrow> CircularPath list" where
  "findCircularPaths baseToken maxHops availablePools minLiquidity =
     (let liquidPools = filter (\<lambda>p. liquidity (compositePool (snd p)) > minLiquidity) availablePools;
          adj = buildAdjacencyMap liquidPools
      in (if maxHops \<ge> 2 then findTwoHopCycles baseToken adj else [])
         @ (if maxHops \<ge> 3 then findThreeHopCycles baseToken adj else [])
         @ (if maxHops \<ge> 4 then findFourHopCycles baseToken adj else []))"

section \<open>Profit calculator\<close>

record ArbitrageOpportunity =
  path :: CircularPath
  inputAmount :: number
  expectedOutputAmount :: number
  grossProfit :: number
  gasEstimate :: number
  netProfit :: number
  profitPercentage :: number
  priceImpacts :: "number list"
  timestamp :: nat

text \<open>
  What \<open>OfflineQuoteEngine.quoteExactInput\<close> hands back, as far as the calculator reads
  it: the output amount (a numeric string in the source, possibly negative) and the price
  impact. The quote itself is computed by an external library and is a parameter.
\<close>

record OfflineQuoteResult =
  quote_amountOut :: number
  priceImpact :: number

type_synonym QuoteEngine = "PoolData \<Rightarrow> string \<Rightarrow> string \<Rightarrow> number \<Rightarrow> error + OfflineQuoteResult"

definition estimateGasCost :: number where
  "estimateGasCost = 1 / 2"

text \<open>Array indexing that yields \<open>undefined\<close> out of range.\<close>

definition at_index :: "'a list \<Rightarrow> nat \<Rightarrow> 'a option" where
  "at_index xs i = (if i < length xs then Some (xs ! i) else None)"

text \<open>
  The hop loop of \<open>calculateProfitability\<close>, over the indices \<open>0 ..< hops\<close>. The state
  is the running amount and the price impacts pushed so far. A missing pool, a missing or
  empty token, and a failing quote all raise.
\<close>

fun quote_hops ::
  "QuoteEngine \<Rightarrow> CircularPath \<Rightarrow> nat list \<Rightarrow> number \<times> number list \<Rightarrow> error + number \<times> number list" where
  "quote_hops q p [] st = Inr st"
| "quote_hops q p (i # is) (currentAmount, impacts) =
     (case (at_index (pools p) i, at_index (tokens p) i, at_index (tokens p) (i + 1)) of
        (Some pool, Some tokenIn, Some tokenOut) \<Rightarrow>
          (if tokenIn = [] \<or> tokenOut = [] then Inl (Error ''Invalid path: missing pool or token data'')
           else (case q (snd pool) tokenIn tokenOut currentAmount of
                   Inl e \<Rightarrow> Inl (Error ''Failed to quote hop'')
                 | Inr quote \<Rightarrow>
                     quote_hops q p is (\<bar>quote_amountOut quote\<bar>, impacts @ [priceImpact quote])))
      | _ \<Rightarrow> Inl (Error ''Invalid path: missing pool or token data''))"

definition calculateProfitability ::
  "QuoteEngine \<Rightarrow> nat \<Rightarrow> CircularPath \<Rightarrow> number \<Rightarrow> error + ArbitrageOpportunity" where
  "calculateProfitability q now p inputAmt =
     (case quote_hops q p [0 ..< hops p] (inputAmt, []) of
        Inl e \<Rightarrow> Inl e
      | Inr (currentAmount, impacts) \<Rightarrow>
          (let expectedOutput = currentAmount;
               gross = expectedOutput - inputAmt;
               gas = estimateGasCost * of_nat (hops p);
               net = gross - gas;
               pct = (net / inputAmt) * 100
           in Inr \<lparr>path = p, inputAmount = inputAmt, expectedOutputAmount = expectedOutput,
                   grossProfit = gross, gasEstimate = gas, netProfit = net,
                   profitPercentage = pct, priceImpacts = impacts, timestamp = now\<rparr>))"

text \<open>
  The repository holds a second copy of the calculator, which computes with
  arbitrary-precision decimals. It differs from the one above in the net profit: the
  subtraction of the gas estimate is commented out, with the remark that subtracting GALA
  transaction fees from a gross profit in the preferred token is incorrect without a
  conversion, and the net profit is the gross profit times 0.98.
\<close>

definition calculateProfitability_bignumber ::
  "QuoteEngine \<Rightarrow> nat \<Rightarrow> CircularPath \<Rightarrow> number \<Rightarrow> error + ArbitrageOpportunity" where
  "calculateProfitability_bignumber q now p inputAmt =
     (case quote_hops q p [0 ..< hops p] (inputAmt, []) of
        Inl e \<Rightarrow> Inl e
      | Inr (currentAmount, impacts) \<Rightarrow>
          (let expectedOutput = currentAmount;
               gross = expectedOutput - inputAmt;
               gas = estimateGasCost * of_nat (hops p);
               net = gross * (98 / 100);
               pct = (net / inputAmt) * 100
           in Inr \<lparr>path = p, inputAmount = inputAmt, expectedOutputAmount = expectedOutput,
                   grossProfit = gross, gasEstimate = gas, netProfit = net,
                   profitPercentage = pct, priceImpacts = impacts, timestamp = now\<rparr>))"

definition filterProfitable :: "ArbitrageOpportunity list \<Rightarrow> number \<Rightarrow> ArbitrageOpportunity list" where
  "filterProfitable opportunities minProfitPercent =
     filter (\<lambda>opp. netProfit opp > 0 \<and> profitPercentage opp \<ge> minProfitPercent) opportunities"

text \<open>
  \<open>Array.prototype.sort\<close> with a comparator is a stable sort: an element goes in front
  of another exactly when the comparator says so, and elements that compare equal keep
  their order. Insertion from the right end realises that.
\<close>

fun insert_by :: "('a \<Rightarrow> 'a \<Rightarrow> number) \<Rightarrow> 'a \<Rightarrow> 'a list \<Rightarrow> 'a list" where
  "insert_by cmp x [] = [x]"
| "insert_by cmp x (y # ys) = (if cmp x y \<le> 0 then x # y # ys else y # insert_by cmp x ys)"

fun array_sort :: "('a \<Rightarrow> 'a \<Rightarrow> number) \<Rightarrow> 'a list \<Rightarrow> 'a list" where
  "array_sort cmp [] = []"
| "array_sort cmp (x # xs) = insert_by cmp x (array_sort cmp xs)"

definition sortByProfitability :: "ArbitrageOpportunity list \<Rightarrow> ArbitrageOpportunity list" where
  "sortByProfitability opportunities =
     array_sort (\<lambda>a b. profitPercentage b - profitPercentage a) opportunities"

text \<open>
  The ranking \<open>\<section>4.5\<close> of the specification describes, for comparison with the code:
  descending profit percent, ties broken by fewer hops, then by earliest detection.
\<close>

definition spec_ranked_before :: "ArbitrageOpportunity \<Rightarrow> ArbitrageOpportunity \<Rightarrow> bool" where
  "spec_ranked_before a b =
     (profitPercentage a > profitPercentage b \<or>
      (profitPercentage a = profitPercentage b \<and>
       (hops (path a) < hops (path b) \<or>
        (hops (path a) = hops (path b) \<and> timestamp a \<le> timestamp b))))"

section \<open>Trading strategy\<close>

record TradeResult =
  success :: bool
  fromToken :: string
  toToken :: string
  amountIn :: number
  amountOut :: "number option"
  transactionId :: "string option"
  error_message :: "string option"
  result_timestamp :: nat

text \<open>\<open>PoolInfo\<close> of \<open>trading-strategy.ts\<close>; liquidity and price are numeric strings there.\<close>

record PoolInfo =
  info_token0 :: string
  info_token1 :: string
  info_fee :: nat
  info_liquidity :: number
  info_sqrtPrice :: number

subsection \<open>The transport\<close>

text \<open>
  The SDK calls the strategy makes are answered by the environment. Each answer is either
  an exception or a value. The quote carries its output under \<open>amountOut\<close> or under
  \<open>outTokenAmount\<close>; both are numeric objects, truthy whenever present.
\<close>

record PoolDataReply =
  reply_liquidity :: "number option"
  reply_sqrtPrice :: number

record QuoteReply =
  reply_amountOut :: "number option"
  reply_outTokenAmount :: "number option"

record PendingTx =
  tx_transactionId :: string
  tx_wait :: "error option"

record Transport =
  getPoolData :: "string \<Rightarrow> string \<Rightarrow> nat \<Rightarrow> error + PoolDataReply"
  quoteExactInput :: "string \<Rightarrow> string \<Rightarrow> number \<Rightarrow> nat \<Rightarrow> error + QuoteReply"
  eventSocketConnected :: bool
  connectEventSocket :: "error option"
  swap :: "string \<Rightarrow> string \<Rightarrow> nat \<Rightarrow> number \<Rightarrow> number \<Rightarrow> string \<Rightarrow> error + PendingTx"
  findTradingPaths :: "string \<Rightarrow> string \<Rightarrow> nat \<Rightarrow> string list list"

text \<open>
  Every call that leaves the process is logged, in order. \<open>CallSwap\<close> is the submission
  endpoint; its arguments are source, target, fee, \<open>exactIn\<close>, \<open>amountOutMinimum\<close> and
  the wallet address.
\<close>

datatype Call =
    CallGetPoolData string string nat
  | CallQuote string string number nat
  | CallConnectSocket
  | CallSwap string string nat number number string
  | CallWait string

fun is_submission :: "Call \<Rightarrow> bool" where
  "is_submission (CallSwap _ _ _ _ _ _) = True"
| "is_submission _ = False"

record StrategyState =
  tradeHistory :: "TradeResult list"
  calls :: "Call list"

definition message :: "error \<Rightarrow> string" where
  "message e = (case e of Error m \<Rightarrow> m)"

text \<open>Decimal rendering of a non-negative integer, as a template literal prints it.\<close>

definition digit :: "nat \<Rightarrow> char" where
  "digit d = ''0123456789'' ! d"

function show_nat :: "nat \<Rightarrow> string" where
  "show_nat n = (if n < 10 then [digit n] else show_nat (n div 10) @ [digit (n mod 10)])"
  by pat_completeness auto
termination
  by (relation "measure id") auto

subsection \<open>findAvailablePools\<close>

fun probe_tiers :: "Transport \<Rightarrow> string \<Rightarrow> string \<Rightarrow> nat list \<Rightarrow> PoolInfo list \<times> Call list" where
  "probe_tiers tr tokenA tokenB [] = ([], [])"
| "probe_tiers tr tokenA tokenB (f # fs) =
     (let (rest, cs) = probe_tiers tr tokenA tokenB fs;
          found = (case getPoolData tr tokenA tokenB f of
                     Inl e \<Rightarrow> []
                   | Inr pd \<Rightarrow>
                       (case reply_liquidity pd of
                          None \<Rightarrow> []
                        | Some l \<Rightarrow>
                            if l > 0
                            then [\<lparr>info_token0 = tokenA, info_token1 = tokenB, info_fee = f,
                                    info_liquidity = l, info_sqrtPrice = reply_sqrtPrice pd\<rparr>]
                            else []))
      in (found @ rest, CallGetPoolData tokenA tokenB f # cs))"

definition findAvailablePools :: "Transport \<Rightarrow> string \<Rightarrow> string \<Rightarrow> PoolInfo list \<times> Call list" where
  "findAvailablePools tr tokenA tokenB =
     (let (found, cs) = probe_tiers tr tokenA tokenB [500, 3000, 10000]
      in (array_sort (\<lambda>a b. info_liquidity b - info_liquidity a) found, cs))"

text \<open>\<open>pools.reduce((prev, curr) => curr.liquidity > prev.liquidity ? curr : prev)\<close>.\<close>

definition best_pool :: "PoolInfo \<Rightarrow> PoolInfo list \<Rightarrow> PoolInfo" where
  "best_pool p ps = foldl (\<lambda>prev curr. if info_liquidity curr > info_liquidity prev then curr else prev) p ps"

subsection \<open>executeTrade\<close>

text \<open>
  The body of the \<open>try\<close> block: it ends either with the message that the \<open>catch\<close> stores
  in \<open>result.error\<close>, or with the expected output and the transaction id. The calls made
  on the way are returned with it.
\<close>

definition select_fee ::
  "Transport \<Rightarrow> string \<Rightarrow> string \<Rightarrow> nat option \<Rightarrow> (string + nat) \<times> Call list" where
  "select_fee tr fromTok toTok feeOpt =
     (if feeOpt = None \<or> feeOpt = Some 0 then
        (let (found, cs) = findAvailablePools tr fromTok toTok
         in (case found of
               [] \<Rightarrow> (Inl (''No liquid pools found for '' @ fromTok @ '' -> '' @ toTok), cs)
             | p # ps \<Rightarrow> (Inr (info_fee (best_pool p ps)), cs)))
      else (Inr (the feeOpt), []))"

definition submit_swap ::
  "BotConfig \<Rightarrow> Transport \<Rightarrow> string \<Rightarrow> string \<Rightarrow> number \<Rightarrow> nat \<Rightarrow> number \<Rightarrow>
   (string + number \<times> string) \<times> Call list" where
  "submit_swap cfg tr fromTok toTok amt poolFee outputAmount =
     (let expectedOutput = \<bar>outputAmount\<bar>;
          minOutput = expectedOutput * (1 - maxSlippage cfg / 100);
          connecting = (if eventSocketConnected tr then [] else [CallConnectSocket]);
          sw = CallSwap fromTok toTok poolFee amt minOutput (walletAddress cfg)
      in if \<not> eventSocketConnected tr \<and> connectEventSocket tr \<noteq> None
         then (Inl (message (the (connectEventSocket tr))), connecting)
         else (case swap tr fromTok toTok poolFee amt minOutput (walletAddress cfg) of
                 Inl e \<Rightarrow> (Inl (message e), connecting @ [sw])
               | Inr pendingTx \<Rightarrow>
                   (case tx_wait pendingTx of
                      Some e \<Rightarrow> (Inl (message e),
                                 connecting @ [sw, CallWait (tx_transactionId pendingTx)])
                    | None \<Rightarrow> (Inr (expectedOutput, tx_transactionId pendingTx),
                               connecting @ [sw, CallWait (tx_transactionId pendingTx)]))))"

text \<open>\<open>quote.amountOut || quote.outTokenAmount\<close>.\<close>

definition quoted_output :: "QuoteReply \<Rightarrow> number option" where
  "quoted_output quote =
     (case reply_amountOut quote of Some a \<Rightarrow> Some a | None \<Rightarrow> reply_outTokenAmount quote)"

definition live_trade ::
  "BotConfig \<Rightarrow> Transport \<Rightarrow> string \<Rightarrow> string \<Rightarrow> number \<Rightarrow> nat option \<Rightarrow>
   (string + number \<times> string) \<times> Call list" where
  "live_trade cfg tr fromTok toTok amt feeOpt =
     (case select_fee tr fromTok toTok feeOpt of
        (Inl m, cs) \<Rightarrow> (Inl m, cs)
      | (Inr poolFee, cs) \<Rightarrow>
          (case quoteExactInput tr fromTok toTok amt poolFee of
             Inl e \<Rightarrow> (Inl (''Unable to get quote: '' @ message e),
                        cs @ [CallQuote fromTok toTok amt poolFee])
           | Inr quote \<Rightarrow>
               (case quoted_output quote of
                  None \<Rightarrow> (Inl ''Unable to get quote for trade'',
                            cs @ [CallQuote fromTok toTok amt poolFee])
                | Some outputAmount \<Rightarrow>
                    (let (r, cs2) = submit_swap cfg tr fromTok toTok amt poolFee outputAmount
                     in (r, cs @ [CallQuote fromTok toTok amt poolFee] @ cs2)))))"

definition executeTrade ::
  "BotConfig \<Rightarrow> Transport \<Rightarrow> nat \<Rightarrow> StrategyState \<Rightarrow> string \<Rightarrow> string \<Rightarrow> number \<Rightarrow> nat option \<Rightarrow>
   TradeResult \<times> StrategyState" where
  "executeTrade cfg tr now st fromTok toTok amt feeOpt =
     (let result = \<lparr>success = False, fromToken = fromTok, toToken = toTok, amountIn = amt,
                     amountOut = None, transactionId = None, error_message = None,
                     result_timestamp = now\<rparr>
      in if \<not> enableTrading cfg then
           (let r = result\<lparr>success := True, amountOut := Some (amt * (98 / 100)),
                            transactionId := Some (''mock-tx-'' @ show_nat now)\<rparr>
            in (r, st\<lparr>tradeHistory := tradeHistory st @ [r]\<rparr>))
         else
           (let (outcome, cs) = live_trade cfg tr fromTok toTok amt feeOpt;
                r = (case outcome of
                       Inl m \<Rightarrow> result\<lparr>error_message := Some m\<rparr>
                     | Inr (expectedOutput, txid) \<Rightarrow>
                         result\<lparr>success := True, amountOut := Some expectedOutput,
                                transactionId := Some txid\<rparr>)
            in (r, st\<lparr>tradeHistory := tradeHistory st @ [r], calls := calls st @ cs\<rparr>)))"

subsection \<open>executeMultiHopTrade\<close>

text \<open>\<open>x.amountOut\<close> used as a condition: undefined and zero are both falsy.\<close>

definition truthy_amount :: "number option \<Rightarrow> bool" where
  "truthy_amount x = (case x of None \<Rightarrow> False | Some a \<Rightarrow> a \<noteq> 0)"

definition or_unknown :: "string option \<Rightarrow> string" where
  "or_unknown x = or_str x ''unknown''"

text \<open>
  The loop over the candidate paths. \<open>Inr\<close> is the combined result of the first path
  whose two hops both succeed; \<open>Inl\<close> is the final throw when every path failed.
\<close>

fun try_paths ::
  "BotConfig \<Rightarrow> Transport \<Rightarrow> nat \<Rightarrow> StrategyState \<Rightarrow> string \<Rightarrow> string \<Rightarrow> number \<Rightarrow>
   string list list \<Rightarrow> (error + TradeResult) \<times> StrategyState" where
  "try_paths cfg tr now st fromTok toTok amt [] =
     (Inl (Error (''All trading paths failed for '' @ fromTok @ '' -> '' @ toTok)), st)"
| "try_paths cfg tr now st fromTok toTok amt (p # ps) =
     (case p of
        [t0, intermediate, t1] \<Rightarrow>
          if t0 = [] \<or> intermediate = [] \<or> t1 = [] then try_paths cfg tr now st fromTok toTok amt ps
          else
            (let (firstResult, st1) = executeTrade cfg tr now st t0 intermediate amt None
             in if \<not> success firstResult \<or> \<not> truthy_amount (amountOut firstResult)
                then try_paths cfg tr now st1 fromTok toTok amt ps
                else
                  (let (secondResult, st2) =
                         executeTrade cfg tr now st1 intermediate t1 (the (amountOut firstResult)) None
                   in if success secondResult \<and> truthy_amount (amountOut secondResult)
                      then (Inr \<lparr>success = True, fromToken = fromTok, toToken = toTok,
                                 amountIn = amt, amountOut = amountOut secondResult,
                                 transactionId = Some (''multi-hop-''
                                   @ or_unknown (transactionId firstResult) @ ''-''
                                   @ or_unknown (transactionId secondResult)),
                                 error_message = None, result_timestamp = now\<rparr>, st2)
                      else try_paths cfg tr now st2 fromTok toTok amt ps))
      | _ \<Rightarrow> try_paths cfg tr now st fromTok toTok amt ps)"

definition executeMultiHopTrade ::
  "BotConfig \<Rightarrow> Transport \<Rightarrow> nat \<Rightarrow> StrategyState \<Rightarrow> string \<Rightarrow> string \<Rightarrow> number \<Rightarrow>
   (error + TradeResult) \<times> StrategyState" where
  "executeMultiHopTrade cfg tr now st fromTok toTok amt =
     (let (directResult, st1) = executeTrade cfg tr now st fromTok toTok amt None
      in if success directResult then (Inr directResult, st1)
         else (let paths = findTradingPaths tr fromTok toTok 2
               in if paths = []
                  then (Inl (Error (''No trading path found from '' @ fromTok @ '' to '' @ toTok)), st1)
                  else try_paths cfg tr now st1 fromTok toTok amt paths))"

subsection \<open>executeTradesForPreferredToken\<close>

definition trade_priority :: "BotConfig \<Rightarrow> TradeIntent \<Rightarrow> TradeIntent \<Rightarrow> number" where
  "trade_priority cfg a b =
     (if targetToken a = galaTokenKey cfg \<and> targetToken b \<noteq> galaTokenKey cfg then - 1
      else if targetToken b = galaTokenKey cfg \<and> targetToken a \<noteq> galaTokenKey cfg then 1
      else 0)"

text \<open>
  The loop over the sorted intents. An exception thrown by \<open>executeMultiHopTrade\<close> is
  not caught here and ends the batch. The pause between two trades is a timer and leaves
  no trace in the state.
\<close>

fun trades_loop ::
  "BotConfig \<Rightarrow> Transport \<Rightarrow> nat \<Rightarrow> StrategyState \<Rightarrow> TradeResult list \<Rightarrow> TradeIntent list \<Rightarrow>
   (error + TradeResult list) \<times> StrategyState" where
  "trades_loop cfg tr now st results [] = (Inr results, st)"
| "trades_loop cfg tr now st results (trade # rest) =
     (if \<not> enableTrading cfg then trades_loop cfg tr now st results rest
      else (case executeMultiHopTrade cfg tr now st (tokenKey (token trade)) (targetToken trade)
                   (amount trade) of
              (Inl e, st1) \<Rightarrow> (Inl e, st1)
            | (Inr result, st1) \<Rightarrow> trades_loop cfg tr now st1 (results @ [result]) rest))"

definition executeTradesForPreferredToken ::
  "BotConfig \<Rightarrow> Transport \<Rightarrow> nat \<Rightarrow> StrategyState \<Rightarrow> TradeIntent list \<Rightarrow>
   (error + TradeResult list) \<times> StrategyState" where
  "executeTradesForPreferredToken cfg tr now st trades =
     trades_loop cfg tr now st [] (array_sort (trade_priority cfg) trades)"

section \<open>Pool snapshot cache\<close>

record CachedPool =
  data :: PoolData
  expiresAt :: int

text \<open>
  The manager's fields, and beside them the POST requests issued so far: the only trace the
  manager leaves outside the process.
\<close>

type_synonym TokenClassKey = "string \<times> string \<times> string \<times> string"

record PoolDataManager =
  poolCache :: "string \<rightharpoonup> CachedPool"
  cacheTTL :: int
  posts :: "(TokenClassKey \<times> TokenClassKey \<times> nat) list"

text \<open>The constructor: a TTL that is absent or zero leaves the default of 60 seconds.\<close>

definition new_PoolDataManager :: "int option \<Rightarrow> PoolDataManager" where
  "new_PoolDataManager ttl =
     \<lparr>poolCache = Map.empty,
      cacheTTL = (case ttl of None \<Rightarrow> 60000 | Some t \<Rightarrow> if t = 0 then 60000 else t),
      posts = []\<rparr>"

definition getCacheKey :: "string \<Rightarrow> string \<Rightarrow> nat \<Rightarrow> string" where
  "getCacheKey tok0 tok1 f =
     (let (t0, t1) = (if tok0 < tok1 then (tok0, tok1) else (tok1, tok0))
      in t0 @ ''|'' @ t1 @ ''|'' @ show_nat f)"

text \<open>\<open>tokenKey.split('|')\<close>.\<close>

fun split_bar :: "string \<Rightarrow> string list" where
  "split_bar [] = [[]]"
| "split_bar (c # cs) =
     (if c = CHR ''|'' then [] # split_bar cs
      else (case split_bar cs of [] \<Rightarrow> [[c]] | p # ps \<Rightarrow> (c # p) # ps))"

definition parseTokenKey :: "string \<Rightarrow> error + TokenClassKey" where
  "parseTokenKey k =
     (case split_bar k of
        [a, b, c, d] \<Rightarrow> Inr (a, b, c, d)
      | _ \<Rightarrow> Inl (Error (''Invalid token key format: '' @ k)))"

text \<open>
  The gateway answers a POST with an exception, with a body that lacks \<open>Data\<close>, or with
  a composite pool. Its answer may change from one request to the next, so it is indexed
  by the number of requests made before.
\<close>

type_synonym Gateway = "nat \<Rightarrow> TokenClassKey \<Rightarrow> TokenClassKey \<Rightarrow> nat \<Rightarrow> error + CompositePool option"

definition fetchCompositePoolData ::
  "Gateway \<Rightarrow> PoolDataManager \<Rightarrow> int \<Rightarrow> string \<Rightarrow> string \<Rightarrow> nat \<Rightarrow> (error + PoolData) \<times> PoolDataManager" where
  "fetchCompositePoolData gw mgr now token0Key token1Key f =
     (case parseTokenKey token0Key of
        Inl e \<Rightarrow> (Inl e, mgr)
      | Inr k0 \<Rightarrow>
          (case parseTokenKey token1Key of
             Inl e \<Rightarrow> (Inl e, mgr)
           | Inr k1 \<Rightarrow>
               (let mgr1 = mgr\<lparr>posts := posts mgr @ [(k0, k1, f)]\<rparr>
                in (case gw (length (posts mgr)) k0 k1 f of
                      Inl e \<Rightarrow> (Inl e, mgr1)
                    | Inr None \<Rightarrow> (Inl (Error ''No composite pool data returned''), mgr1)
                    | Inr (Some cp) \<Rightarrow>
                        (Inr \<lparr>token0 = token0Key, token1 = token1Key, fee = f,
                              compositePool = cp, lastUpdated = now\<rparr>, mgr1)))))"

text \<open>
  One call of \<open>getCompositePoolData\<close> with its arguments and the three clock readings it
  makes: at the validity check, when the fetched snapshot is stamped, and when the entry
  is stored.
\<close>

record GetCall =
  get_token0 :: string
  get_token1 :: string
  get_fee :: nat
  now_check :: int
  now_fetched :: int
  now_store :: int

definition call_key :: "GetCall \<Rightarrow> string" where
  "call_key c = getCacheKey (get_token0 c) (get_token1 c) (get_fee c)"

definition getCompositePoolData ::
  "Gateway \<Rightarrow> PoolDataManager \<Rightarrow> GetCall \<Rightarrow> (error + PoolData) \<times> PoolDataManager" where
  "getCompositePoolData gw mgr c =
     (let cacheKey = getCacheKey (get_token0 c) (get_token1 c) (get_fee c);
          cached = poolCache mgr cacheKey
      in if cached \<noteq> None \<and> now_check c < expiresAt (the cached) then (Inr (data (the cached)), mgr)
         else (case fetchCompositePoolData gw mgr (now_fetched c) (get_token0 c) (get_token1 c) (get_fee c) of
                 (Inl e, mgr1) \<Rightarrow> (Inl e, mgr1)
               | (Inr poolData, mgr1) \<Rightarrow>
                   (Inr poolData,
                    mgr1\<lparr>poolCache := (poolCache mgr1)(cacheKey \<mapsto>
                           \<lparr>data = poolData, expiresAt = now_store c + cacheTTL mgr1\<rparr>)\<rparr>)))"

text \<open>A sequence of calls, each awaited before the next is made.\<close>

fun get_sequence ::
  "Gateway \<Rightarrow> PoolDataManager \<Rightarrow> GetCall list \<Rightarrow> (error + PoolData) list \<times> PoolDataManager" where
  "get_sequence gw mgr [] = ([], mgr)"
| "get_sequence gw mgr (c # cs) =
     (let (r, mgr1) = getCompositePoolData gw mgr c;
          (rs, mgr2) = get_sequence gw mgr1 cs
      in (r # rs, mgr2))"

section \<open>Scenarios\<close>

text \<open>The configuration of the end-to-end scenarios: preferred SILK, gas GALA, dry run.\<close>

definition cfg_dca :: BotConfig where
  "cfg_dca = \<lparr>preferredTokenKey = ''SILK|Unit|none|none'', galaTokenKey = ''GALA|Unit|none|none'',
     minimumGalaBalance = 100, maxSlippage = 5, tradeAmountPercentage = 10,
     walletAddress = ''eth|0123'', enableTrading = False\<rparr>"

text \<open>The default configuration, in which the preferred token is the gas token.\<close>

definition cfg_same :: BotConfig where
  "cfg_same = cfg_dca\<lparr>preferredTokenKey := ''GALA|Unit|none|none''\<rparr>"

definition cfg_live :: BotConfig where
  "cfg_live = cfg_dca\<lparr>enableTrading := True\<rparr>"


definition gusdc :: "number \<Rightarrow> TokenBalance" where
  "gusdc q = \<lparr>tokenKey = ''GUSDC|Unit|none|none'', symbol = ''GUSDC'', quantity = q, decimals = 8\<rparr>"


definition gala_source :: "number \<Rightarrow> TokenBalance" where
  "gala_source q = \<lparr>tokenKey = ''GALA|Unit|none|none'', symbol = ''GALA'', quantity = q, decimals = 8\<rparr>"

definition summary :: "number \<Rightarrow> TokenBalance list \<Rightarrow> BalanceSummary" where
  "summary gas others = \<lparr>preferredTokenBalance = 0, galaTokenBalance = gas,
     otherTokens = others, totalTokens = Suc (Suc (length others))\<rparr>"


text \<open>Two assets as the transport delivers them: GALA with a nested class key, GUSDC flat.\<close>

definition no_class :: TokenClassObj where
  "no_class = \<lparr>collection = None, category = None, type_field = None, additionalKey = None\<rparr>"

definition asset_gala :: Asset where
  "asset_gala = \<lparr>tokenClassKey = Some \<lparr>collection = Some ''GALA'', category = Some ''Unit'',
                     type_field = Some ''none'', additionalKey = Some ''none''\<rparr>,
     tokenClass = None, flat = no_class, asset_symbol = Some ''GALA'',
     asset_quantity = QNumber 150, asset_decimals = Some 8\<rparr>"

definition asset_gusdc :: Asset where
  "asset_gusdc = \<lparr>tokenClassKey = None, tokenClass = None, flat = no_class,
     asset_symbol = Some ''GUSDC'', asset_quantity = QNumber 50, asset_decimals = None\<rparr>"

definition reply_gala_gusdc :: AssetsReply where
  "reply_gala_gusdc = \<lparr>reply_tokens = [asset_gala, asset_gusdc], reply_count = 2\<rparr>"

definition summary_gala_gusdc :: BalanceSummary where
  "summary_gala_gusdc = \<lparr>preferredTokenBalance = 150, galaTokenBalance = 150,
     otherTokens = [gusdc 50], totalTokens = 2\<rparr>"

text \<open>The pool graph of the cycle-detection scenario; the first component is the object identity.\<close>

definition mkpool :: "nat \<Rightarrow> string \<Rightarrow> string \<Rightarrow> nat \<Rightarrow> PoolObj" where
  "mkpool r a b f = (r, \<lparr>token0 = a, token1 = b, fee = f,
     compositePool = \<lparr>liquidity = 5000\<rparr>, lastUpdated = 0\<rparr>)"

definition graph_pools :: "PoolObj list" where
  "graph_pools = [mkpool 1 ''A'' ''B'' 500, mkpool 2 ''A'' ''B'' 3000,
                  mkpool 3 ''B'' ''C'' 3000, mkpool 4 ''C'' ''A'' 10000]"

definition cycle2 :: "PoolObj \<Rightarrow> PoolObj \<Rightarrow> CircularPath" where
  "cycle2 p1 p2 = \<lparr>tokens = [''A'', ''B'', ''A''], pools = [p1, p2],
     fees = [fee (snd p1), fee (snd p2)], hops = 2\<rparr>"

definition cycle3 :: "string \<Rightarrow> string \<Rightarrow> PoolObj \<Rightarrow> PoolObj \<Rightarrow> PoolObj \<Rightarrow> CircularPath" where
  "cycle3 b c p1 p2 p3 = \<lparr>tokens = [''A'', b, c, ''A''], pools = [p1, p2, p3],
     fees = [fee (snd p1), fee (snd p2), fee (snd p3)], hops = 3\<rparr>"

text \<open>
  The arbitrage scenario: three pools at fee 3000 and a quote engine under which every hop
  returns half a unit more than it was given, so that 100 comes back as 101.5.
\<close>

definition path_abc :: CircularPath where
  "path_abc = cycle3 ''B'' ''C'' (mkpool 1 ''A'' ''B'' 3000) (mkpool 2 ''B'' ''C'' 3000)
                (mkpool 3 ''C'' ''A'' 3000)"

definition half_unit_quote :: QuoteEngine where
  "half_unit_quote pool tokenIn tokenOut amt =
     Inr \<lparr>quote_amountOut = - (amt + 1 / 2), priceImpact = 0\<rparr>"

text \<open>An opportunity with the given hop count, profit percentage and detection time.\<close>

definition opp_of :: "nat \<Rightarrow> number \<Rightarrow> nat \<Rightarrow> ArbitrageOpportunity" where
  "opp_of h pct ts = \<lparr>path = \<lparr>tokens = [], pools = [], fees = [], hops = h\<rparr>, inputAmount = 100,
     expectedOutputAmount = 100 + pct, grossProfit = pct, gasEstimate = 0, netProfit = pct,
     profitPercentage = pct, priceImpacts = [], timestamp = ts\<rparr>"

text \<open>
  A transport on which only the fee tier 3000 has liquidity, every quote is 100, the event
  socket is connected and every swap is accepted and completes.
\<close>

definition quote100 :: Transport where
  "quote100 = \<lparr>
     getPoolData = (\<lambda>a b f. if f = 3000 then Inr \<lparr>reply_liquidity = Some 1000, reply_sqrtPrice = 1\<rparr>
                             else Inl (Error ''no pool'')),
     quoteExactInput = (\<lambda>a b amt f. Inr \<lparr>reply_amountOut = Some 100, reply_outTokenAmount = None\<rparr>),
     eventSocketConnected = True,
     connectEventSocket = None,
     swap = (\<lambda>a b f x m w. Inr \<lparr>tx_transactionId = ''tx-1'', tx_wait = None\<rparr>),
     findTradingPaths = (\<lambda>a b n. [])\<rparr>"

text \<open>
  The same transport with a different answer to every quote: the output is reported under
  \<open>outTokenAmount\<close> only, and as the negative amount -200.
\<close>

definition quote_minus200 :: Transport where
  "quote_minus200 = \<lparr>
     getPoolData = (\<lambda>a b f. if f = 3000 then Inr \<lparr>reply_liquidity = Some 1000, reply_sqrtPrice = 1\<rparr>
                             else Inl (Error ''no pool'')),
     quoteExactInput = (\<lambda>a b amt f. Inr \<lparr>reply_amountOut = None, reply_outTokenAmount = Some (- 200)\<rparr>),
     eventSocketConnected = True,
     connectEventSocket = None,
     swap = (\<lambda>a b f x m w. Inr \<lparr>tx_transactionId = ''tx-2'', tx_wait = None\<rparr>),
     findTradingPaths = (\<lambda>a b n. [])\<rparr>"

definition fresh_state :: StrategyState where
  "fresh_state = \<lparr>tradeHistory = [], calls = []\<rparr>"

text \<open>A gateway that always answers with a snapshot, and two calls on one pool in both token orders.\<close>

definition gateway_ok :: Gateway where
  "gateway_ok n k0 k1 f = Inr (Some \<lparr>liquidity = 5000\<rparr>)"

definition call_first :: GetCall where
  "call_first = \<lparr>get_token0 = ''SILK|Unit|none|none'', get_token1 = ''GALA|Unit|none|none'',
     get_fee = 3000, now_check = 0, now_fetched = 1, now_store = 2\<rparr>"

definition call_swapped :: GetCall where
  "call_swapped = \<lparr>get_token0 = ''GALA|Unit|none|none'', get_token1 = ''SILK|Unit|none|none'',
     get_fee = 3000, now_check = 60001, now_fetched = 60001, now_store = 60001\<rparr>"

definition snapshot_first :: PoolData where
  "snapshot_first = \<lparr>token0 = ''SILK|Unit|none|none'', token1 = ''GALA|Unit|none|none'', fee = 3000,
     compositePool = \<lparr>liquidity = 5000\<rparr>, lastUpdated = 1\<rparr>"

definition manager_after_first :: PoolDataManager where
  "manager_after_first = \<lparr>
     poolCache = [call_key call_first \<mapsto> \<lparr>data = snapshot_first, expiresAt = 60002\<rparr>],
     cacheTTL = 60000,
     posts = [((''SILK'', ''Unit'', ''none'', ''none''), (''GALA'', ''Unit'', ''none'', ''none''), 3000)]\<rparr>"

section \<open>Balance manager: what getBalances records\<close>

lemma balances_loop_append:
  "balances_loop cfg pf acc (xs @ ys) = balances_loop cfg pf (balances_loop cfg pf acc xs) ys"
  by (induction xs arbitrary: acc) simp_all

lemma balances_step_same:
  "preferredTokenKey cfg = galaTokenKey cfg \<Longrightarrow> acc_preferred acc = acc_gala acc \<Longrightarrow>
   acc_preferred (balances_step cfg pf acc a) = acc_gala (balances_step cfg pf acc a)"
  by (simp add: balances_step_def Let_def)

lemma balances_loop_same:
  "preferredTokenKey cfg = galaTokenKey cfg \<Longrightarrow> acc_preferred acc = acc_gala acc \<Longrightarrow>
   acc_preferred (balances_loop cfg pf acc as) = acc_gala (balances_loop cfg pf acc as)"
proof (induction as arbitrary: acc)
  case Nil
  then show ?case by simp
next
  case (Cons a as)
  show ?case
    using Cons.IH[OF Cons.prems(1) balances_step_same[OF Cons.prems]] by simp
qed

lemma balances_step_others:
  "t \<in> set (acc_others (balances_step cfg pf acc a)) \<Longrightarrow>
   t \<in> set (acc_others acc) \<or>
   (tokenKey t \<noteq> galaTokenKey cfg \<and> tokenKey t \<noteq> preferredTokenKey cfg)"
  by (simp add: balances_step_def Let_def split: if_splits) auto

lemma balances_loop_others:
  "t \<in> set (acc_others (balances_loop cfg pf acc as)) \<Longrightarrow>
   t \<in> set (acc_others acc) \<or>
   (tokenKey t \<noteq> galaTokenKey cfg \<and> tokenKey t \<noteq> preferredTokenKey cfg)"
proof (induction as arbitrary: acc)
  case Nil
  then show ?case by simp
next
  case (Cons a as)
  from Cons.prems
  have "t \<in> set (acc_others (balances_loop cfg pf (balances_step cfg pf acc a) as))"
    by simp
  from Cons.IH[OF this] balances_step_others[of t cfg pf acc a] show ?case by blast
qed

lemma getBalances_others_exclude_gas:
  assumes "getBalances cfg pf (Inr reply) = Inr s" and "t \<in> set (otherTokens s)"
  shows "tokenKey t \<noteq> galaTokenKey cfg"
proof -
  from assms
  have "t \<in> set (acc_others (balances_loop cfg pf
          \<lparr>acc_preferred = 0, acc_gala = 0, acc_others = []\<rparr> (reply_tokens reply)))"
    by (auto simp: getBalances_def Let_def)
  from balances_loop_others[OF this] show ?thesis by simp
qed

lemma balances_step_keep:
  "constructTokenKey a \<noteq> preferredTokenKey cfg \<Longrightarrow>
   acc_preferred (balances_step cfg pf acc a) = acc_preferred acc"
  by (simp add: balances_step_def Let_def)

lemma balances_loop_keep:
  "\<forall>y\<in>set ys. constructTokenKey y \<noteq> preferredTokenKey cfg \<Longrightarrow>
   acc_preferred (balances_loop cfg pf acc ys) = acc_preferred acc"
  by (induction ys arbitrary: acc) (simp_all add: balances_step_keep)

lemma balances_step_preferred:
  "constructTokenKey a = preferredTokenKey cfg \<Longrightarrow>
   acc_preferred (balances_step cfg pf acc a) = parseBalance pf (asset_quantity a)"
  by (simp add: balances_step_def Let_def)

lemma constructTokenKey_asset_gala: "constructTokenKey asset_gala = ''GALA|Unit|none|none''"
  by (simp add: constructTokenKey_def asset_gala_def or_str_def)

lemma constructTokenKey_asset_gusdc: "constructTokenKey asset_gusdc = ''GUSDC|Unit|none|none''"
  by (simp add: constructTokenKey_def asset_gusdc_def no_class_def or_str_def)

lemma asset_gala_fields:
  "asset_quantity asset_gala = QNumber 150"
  by (simp add: asset_gala_def)

lemma asset_gusdc_fields:
  "asset_quantity asset_gusdc = QNumber 50 \<and> asset_symbol asset_gusdc = Some ''GUSDC'' \<and>
   asset_decimals asset_gusdc = None"
  by (simp add: asset_gusdc_def)

lemma cfg_same_keys:
  "preferredTokenKey cfg_same = ''GALA|Unit|none|none'' \<and>
   galaTokenKey cfg_same = ''GALA|Unit|none|none''"
  by (simp add: cfg_same_def cfg_dca_def)

lemma getBalances_same_example:
  "getBalances cfg_same (\<lambda>s. 0) (Inr reply_gala_gusdc) = Inr summary_gala_gusdc"
  by (simp add: getBalances_def balances_step_def constructTokenKey_asset_gala
      constructTokenKey_asset_gusdc cfg_same_keys parseBalance_def reply_gala_gusdc_def
      summary_gala_gusdc_def gusdc_def
      asset_gala_fields asset_gusdc_fields or_str_def or_nat_def)

text \<open>
  Claim C10. When the configured preferred token key equals the configured gas token key,
  the summary returned by \<open>getBalances\<close> carries the same quantity in
  \<open>preferredTokenBalance\<close> and \<open>galaTokenBalance\<close>, namely the parsed quantity of the
  (last) fetched asset with that key, and no element of \<open>otherTokens\<close> has that key.
\<close>

theorem getBalances_preferred_is_gas:
  assumes "preferredTokenKey cfg = galaTokenKey cfg"
    and "getBalances cfg pf (Inr reply) = Inr s"
  shows "preferredTokenBalance s = galaTokenBalance s \<and>
    (\<forall>t\<in>set (otherTokens s). tokenKey t \<noteq> galaTokenKey cfg) \<and>
    (reply_tokens reply = xs @ a # ys \<and> constructTokenKey a = galaTokenKey cfg \<and>
       (\<forall>y\<in>set ys. constructTokenKey y \<noteq> galaTokenKey cfg) \<longrightarrow>
         preferredTokenBalance s = parseBalance pf (asset_quantity a) \<and>
         galaTokenBalance s = parseBalance pf (asset_quantity a))"
proof -
  let ?init = "\<lparr>acc_preferred = 0, acc_gala = 0, acc_others = []\<rparr>"
  let ?acc = "balances_loop cfg pf ?init (reply_tokens reply)"
  from assms(2)
  have s: "s = \<lparr>preferredTokenBalance = acc_preferred ?acc, galaTokenBalance = acc_gala ?acc,
                 otherTokens = acc_others ?acc, totalTokens = reply_count reply\<rparr>"
    by (simp add: getBalances_def Let_def)
  have eq: "preferredTokenBalance s = galaTokenBalance s"
    using balances_loop_same[OF assms(1), of ?init pf "reply_tokens reply"] by (simp add: s)
  have oth: "\<forall>t\<in>set (otherTokens s). tokenKey t \<noteq> galaTokenKey cfg"
  proof
    fix t
    assume "t \<in> set (otherTokens s)"
    then have "t \<in> set (acc_others ?acc)" by (simp add: s)
    from balances_loop_others[OF this] show "tokenKey t \<noteq> galaTokenKey cfg" by simp
  qed
  have last: "preferredTokenBalance s = parseBalance pf (asset_quantity a) \<and>
              galaTokenBalance s = parseBalance pf (asset_quantity a)"
    if "reply_tokens reply = xs @ a # ys" "constructTokenKey a = galaTokenKey cfg"
       "\<forall>y\<in>set ys. constructTokenKey y \<noteq> galaTokenKey cfg"
  proof -
    have "preferredTokenBalance s = parseBalance pf (asset_quantity a)"
      using that assms(1)
      by (simp add: s balances_loop_append balances_loop_keep balances_step_preferred)
    with eq show ?thesis by simp
  qed
  from eq oth last show ?thesis by blast
qed

text \<open>
  The theorem at the default configuration, for a wallet holding 150 GALA and 50 GUSDC:
  both balances are 150 and GALA is not among the other tokens.
\<close>

theorem getBalances_preferred_is_gas_witness:
  "preferredTokenKey cfg_same = galaTokenKey cfg_same \<and>
   getBalances cfg_same (\<lambda>s. 0) (Inr reply_gala_gusdc) = Inr summary_gala_gusdc \<and>
   preferredTokenBalance summary_gala_gusdc = 150 \<and>
   galaTokenBalance summary_gala_gusdc = 150 \<and>
   otherTokens summary_gala_gusdc = [gusdc 50] \<and>
   tokenKey (gusdc 50) \<noteq> galaTokenKey cfg_same \<and>
   reply_tokens reply_gala_gusdc = [] @ asset_gala # [asset_gusdc] \<and>
   constructTokenKey asset_gala = galaTokenKey cfg_same \<and>
   constructTokenKey asset_gusdc \<noteq> galaTokenKey cfg_same \<and>
   parseBalance (\<lambda>s. 0) (asset_quantity asset_gala) = 150"
proof -
  have k: "preferredTokenKey cfg_same = galaTokenKey cfg_same"
    by (simp add: cfg_same_def cfg_dca_def)
  have g: "constructTokenKey asset_gala = galaTokenKey cfg_same"
    by (simp add: constructTokenKey_asset_gala cfg_same_def cfg_dca_def)
  have u: "constructTokenKey asset_gusdc \<noteq> galaTokenKey cfg_same"
    by (simp add: constructTokenKey_asset_gusdc cfg_same_def cfg_dca_def)
  have r: "reply_tokens reply_gala_gusdc = [] @ asset_gala # [asset_gusdc]"
    by (simp add: reply_gala_gusdc_def)
  note t = getBalances_preferred_is_gas[OF k getBalances_same_example,
      of "[]" asset_gala "[asset_gusdc]"]
  from t r g u
  have b: "preferredTokenBalance summary_gala_gusdc = parseBalance (\<lambda>s. 0) (asset_quantity asset_gala)"
    by simp
  have p: "preferredTokenBalance summary_gala_gusdc = 150"
    by (simp add: summary_gala_gusdc_def)
  from t have q: "galaTokenBalance summary_gala_gusdc = preferredTokenBalance summary_gala_gusdc"
    by simp
  from t have "\<forall>t\<in>set (otherTokens summary_gala_gusdc). tokenKey t \<noteq> galaTokenKey cfg_same"
    by blast
  moreover have ot: "otherTokens summary_gala_gusdc = [gusdc 50]"
    by (simp add: summary_gala_gusdc_def)
  ultimately have x: "tokenKey (gusdc 50) \<noteq> galaTokenKey cfg_same"
    by simp
  from k getBalances_same_example p q ot x r g u b show ?thesis
    by simp
qed

section \<open>Balance manager: the intents derived from a summary\<close>

lemma other_trades_source: "i \<in> set (other_trades cfg tgt ts) \<Longrightarrow> token i \<in> set ts"
  by (induction ts) (auto simp: Let_def split: if_splits)


lemma excess_gala_trades_positive:
  "i \<in> set (excess_gala_trades cfg b) \<Longrightarrow> amount i > 0 \<and> token i = \<lparr>tokenKey = galaTokenKey cfg,
     symbol = ''GALA'', quantity = galaTokenBalance b, decimals = 8\<rparr>"
  by (auto simp: excess_gala_trades_def Let_def split: if_splits)

lemma getTokensToTrade_dca_example:
  "getTokensToTrade cfg_dca (summary 150 [gusdc 50])
   = [\<lparr>token = gusdc 50, targetToken = ''SILK|Unit|none|none'', amount = 5\<rparr>]"
  by (simp add: getTokensToTrade_def cfg_dca_def gusdc_def summary_def
      shouldMaintainGalaBalance_def excess_gala_trades_def canTradeExcessGala_def
      calculateTradeAmount_def Let_def)

text \<open>
  Claim C3 as stated fails: with gas balance 150 and minimum 100 the list is not the two
  intents the claim names.
\<close>

theorem getTokensToTrade_dca_counterexample:
  "getTokensToTrade cfg_dca (summary 150 [gusdc 50])
   \<noteq> [\<lparr>token = gusdc 50, targetToken = ''SILK|Unit|none|none'', amount = 5\<rparr>,
       \<lparr>token = gala_source 150, targetToken = ''SILK|Unit|none|none'', amount = 5 / 2\<rparr>]"
  by (simp add: getTokensToTrade_dca_example)

text \<open>
  Claim C3, amended. For preferred token SILK, gas token GALA, gas balance 150, minimum gas
  balance 100, trade percentage 10 and one other token GUSDC with balance 50,
  \<open>getTokensToTrade\<close> returns exactly one intent, (GUSDC to SILK, amount 5): there is no
  gas-refill intent, and no intent from GALA either, because 150 does not exceed twice the
  minimum.
\<close>

theorem getTokensToTrade_dca_scenario:
  "getTokensToTrade cfg_dca (summary 150 [gusdc 50])
     = [\<lparr>token = gusdc 50, targetToken = ''SILK|Unit|none|none'', amount = 5\<rparr>] \<and>
   \<not> canTradeExcessGala cfg_dca (summary 150 [gusdc 50]) \<and>
   \<not> shouldMaintainGalaBalance cfg_dca (summary 150 [gusdc 50])"
proof (intro conjI)
  show "getTokensToTrade cfg_dca (summary 150 [gusdc 50])
     = [\<lparr>token = gusdc 50, targetToken = ''SILK|Unit|none|none'', amount = 5\<rparr>]"
    by (rule getTokensToTrade_dca_example)
  show "\<not> canTradeExcessGala cfg_dca (summary 150 [gusdc 50])"
    by (simp add: canTradeExcessGala_def cfg_dca_def summary_def)
  show "\<not> shouldMaintainGalaBalance cfg_dca (summary 150 [gusdc 50])"
    by (simp add: shouldMaintainGalaBalance_def cfg_dca_def summary_def)
qed

text \<open>
  Claim C5. When the preferred token key equals the gas token key, the list returned by
  \<open>getTokensToTrade\<close> holds no spend-excess-gas intent whatever the gas balance: every
  intent has one of the summary's other tokens as its source. Hence no intent has the gas
  token as source in a summary whose other tokens exclude it, and in particular in every
  summary that \<open>getBalances\<close> returns.
\<close>

theorem getTokensToTrade_preferred_is_gas:
  assumes "preferredTokenKey cfg = galaTokenKey cfg"
  shows "excess_gala_trades cfg b = [] \<and>
    (\<forall>i\<in>set (getTokensToTrade cfg b). token i \<in> set (otherTokens b)) \<and>
    ((\<forall>t\<in>set (otherTokens b). tokenKey t \<noteq> galaTokenKey cfg) \<longrightarrow>
       (\<forall>i\<in>set (getTokensToTrade cfg b). tokenKey (token i) \<noteq> galaTokenKey cfg)) \<and>
    (getBalances cfg pf (Inr reply) = Inr s \<longrightarrow>
       (\<forall>i\<in>set (getTokensToTrade cfg s). tokenKey (token i) \<noteq> galaTokenKey cfg))"
proof -
  have e: "excess_gala_trades cfg b' = []" for b'
    using assms by (simp add: excess_gala_trades_def)
  have src: "\<forall>i\<in>set (getTokensToTrade cfg b'). token i \<in> set (otherTokens b')" for b'
    using e[of b']
    by (auto simp: getTokensToTrade_def dest: other_trades_source split: if_splits)
  have fetched: "\<forall>i\<in>set (getTokensToTrade cfg s). tokenKey (token i) \<noteq> galaTokenKey cfg"
    if "getBalances cfg pf (Inr reply) = Inr s"
    using src[of s] getBalances_others_exclude_gas[OF that] by blast
  from e[of b] src[of b] fetched show ?thesis by blast
qed

text \<open>
  The theorem at the default configuration (preferred and gas token both GALA): with a gas
  balance of 1000, far above twice the minimum, the only intent comes from GUSDC; and so
  it does on the summary fetched for a wallet of 150 GALA and 50 GUSDC.
\<close>

theorem getTokensToTrade_preferred_is_gas_witness:
  "preferredTokenKey cfg_same = galaTokenKey cfg_same \<and>
   canTradeExcessGala cfg_same (summary 1000 [gusdc 50]) \<and>
   tokenKey (gusdc 50) \<noteq> galaTokenKey cfg_same \<and>
   excess_gala_trades cfg_same (summary 1000 [gusdc 50]) = [] \<and>
   getTokensToTrade cfg_same (summary 1000 [gusdc 50])
     = [\<lparr>token = gusdc 50, targetToken = ''GALA|Unit|none|none'', amount = 5\<rparr>] \<and>
   tokenKey (token \<lparr>token = gusdc 50, targetToken = ''GALA|Unit|none|none'', amount = 5\<rparr>)
     \<noteq> galaTokenKey cfg_same \<and>
   getBalances cfg_same (\<lambda>s. 0) (Inr reply_gala_gusdc) = Inr summary_gala_gusdc \<and>
   getTokensToTrade cfg_same summary_gala_gusdc
     = [\<lparr>token = gusdc 50, targetToken = ''GALA|Unit|none|none'', amount = 5\<rparr>]"
proof -
  have k: "preferredTokenKey cfg_same = galaTokenKey cfg_same"
    by (simp add: cfg_same_def cfg_dca_def)
  have o: "tokenKey (gusdc 50) \<noteq> galaTokenKey cfg_same"
    by (simp add: gusdc_def cfg_same_def cfg_dca_def)
  then have o': "\<forall>t\<in>set (otherTokens (summary 1000 [gusdc 50])). tokenKey t \<noteq> galaTokenKey cfg_same"
    by (simp add: summary_def)
  have c: "canTradeExcessGala cfg_same (summary 1000 [gusdc 50])"
    by (simp add: canTradeExcessGala_def summary_def cfg_same_def cfg_dca_def)
  have v: "getTokensToTrade cfg_same (summary 1000 [gusdc 50])
     = [\<lparr>token = gusdc 50, targetToken = ''GALA|Unit|none|none'', amount = 5\<rparr>]"
    by (simp add: getTokensToTrade_def cfg_same_def cfg_dca_def gusdc_def summary_def
        shouldMaintainGalaBalance_def excess_gala_trades_def canTradeExcessGala_def
        calculateTradeAmount_def Let_def)
  have v': "getTokensToTrade cfg_same summary_gala_gusdc
     = [\<lparr>token = gusdc 50, targetToken = ''GALA|Unit|none|none'', amount = 5\<rparr>]"
    by (simp add: getTokensToTrade_def cfg_same_def cfg_dca_def gusdc_def summary_gala_gusdc_def
        shouldMaintainGalaBalance_def excess_gala_trades_def canTradeExcessGala_def
        calculateTradeAmount_def Let_def)
  note t = getTokensToTrade_preferred_is_gas[OF k, of "summary 1000 [gusdc 50]"
      "\<lambda>s. 0" reply_gala_gusdc summary_gala_gusdc]
  from t have e: "excess_gala_trades cfg_same (summary 1000 [gusdc 50]) = []" by blast
  from t o' have "\<forall>i\<in>set (getTokensToTrade cfg_same (summary 1000 [gusdc 50])).
      tokenKey (token i) \<noteq> galaTokenKey cfg_same" by blast
  then have "tokenKey (token \<lparr>token = gusdc 50, targetToken = ''GALA|Unit|none|none'', amount = 5\<rparr>)
     \<noteq> galaTokenKey cfg_same" by (simp add: v)
  with k o c v e v' getBalances_same_example show ?thesis by blast
qed








section \<open>Path finder on the example graph\<close>

lemma findCircularPaths_graph_example:
  "findCircularPaths ''A'' 3 graph_pools 1000
   = [cycle2 (mkpool 1 ''A'' ''B'' 500) (mkpool 2 ''A'' ''B'' 3000),
      cycle2 (mkpool 2 ''A'' ''B'' 3000) (mkpool 1 ''A'' ''B'' 500),
      cycle3 ''B'' ''C'' (mkpool 1 ''A'' ''B'' 500) (mkpool 3 ''B'' ''C'' 3000) (mkpool 4 ''C'' ''A'' 10000),
      cycle3 ''B'' ''C'' (mkpool 2 ''A'' ''B'' 3000) (mkpool 3 ''B'' ''C'' 3000) (mkpool 4 ''C'' ''A'' 10000),
      cycle3 ''C'' ''B'' (mkpool 4 ''C'' ''A'' 10000) (mkpool 3 ''B'' ''C'' 3000) (mkpool 1 ''A'' ''B'' 500),
      cycle3 ''C'' ''B'' (mkpool 4 ''C'' ''A'' 10000) (mkpool 3 ''B'' ''C'' 3000) (mkpool 2 ''A'' ''B'' 3000)]"
  by (simp add: findCircularPaths_def findTwoHopCycles_def findThreeHopCycles_def
      buildAdjacencyMap_def add_edge_def graph_pools_def mkpool_def cycle2_def cycle3_def)

lemma hops_cycles: "hops (cycle2 p q) = 2" "hops (cycle3 b c p q r) = 3"
  by (simp_all add: cycle2_def cycle3_def)

text \<open>
  Claim C2 as stated fails: on the example graph the finder does not return one 2-cycle,
  three 3-cycles and four paths.
\<close>

theorem findCircularPaths_graph_counterexample:
  "\<not> (length (filter (\<lambda>p. hops p = 2) (findCircularPaths ''A'' 3 graph_pools 1000)) = 1 \<and>
      length (filter (\<lambda>p. hops p = 3) (findCircularPaths ''A'' 3 graph_pools 1000)) = 3 \<and>
      length (findCircularPaths ''A'' 3 graph_pools 1000) = 4)"
  by (simp add: findCircularPaths_graph_example hops_cycles)

text \<open>
  Claim C2, amended. For the pool graph (A,B,500), (A,B,3000), (B,C,3000), (C,A,10000)
  with base token A and maxHops 3, \<open>findCircularPaths\<close> returns six paths: the 2-cycle
  A, B, A twice, once per order of the two distinct A-B pools, and four 3-cycles, namely
  A, B, C, A once per A-B pool and its reverse A, C, B, A once per A-B pool.
\<close>

theorem findCircularPaths_graph_scenario:
  "findCircularPaths ''A'' 3 graph_pools 1000
   = [cycle2 (mkpool 1 ''A'' ''B'' 500) (mkpool 2 ''A'' ''B'' 3000),
      cycle2 (mkpool 2 ''A'' ''B'' 3000) (mkpool 1 ''A'' ''B'' 500),
      cycle3 ''B'' ''C'' (mkpool 1 ''A'' ''B'' 500) (mkpool 3 ''B'' ''C'' 3000) (mkpool 4 ''C'' ''A'' 10000),
      cycle3 ''B'' ''C'' (mkpool 2 ''A'' ''B'' 3000) (mkpool 3 ''B'' ''C'' 3000) (mkpool 4 ''C'' ''A'' 10000),
      cycle3 ''C'' ''B'' (mkpool 4 ''C'' ''A'' 10000) (mkpool 3 ''B'' ''C'' 3000) (mkpool 1 ''A'' ''B'' 500),
      cycle3 ''C'' ''B'' (mkpool 4 ''C'' ''A'' 10000) (mkpool 3 ''B'' ''C'' 3000) (mkpool 2 ''A'' ''B'' 3000)] \<and>
   length (filter (\<lambda>p. hops p = 2) (findCircularPaths ''A'' 3 graph_pools 1000)) = 2 \<and>
   length (filter (\<lambda>p. hops p = 3) (findCircularPaths ''A'' 3 graph_pools 1000)) = 4 \<and>
   length (findCircularPaths ''A'' 3 graph_pools 1000) = 6"
  by (simp add: findCircularPaths_graph_example hops_cycles)

section \<open>Profit calculator\<close>

lemma path_abc_fields:
  "hops path_abc = 3"
  "tokens path_abc = [''A'', ''B'', ''C'', ''A'']"
  "length (pools path_abc) = 3"
  by (simp_all add: path_abc_def cycle3_def)

lemma quote_hops_abc:
  "quote_hops half_unit_quote path_abc [0 ..< 3] (100, []) = Inr (203 / 2, [0, 0, 0])"
  by (simp add: path_abc_fields half_unit_quote_def at_index_def upt_rec)

text \<open>
  Claim C1. The claim asks for a net profit of gross profit times 0.98. The calculator
  subtracts a gas estimate of 0.5 per hop instead: on the 3-hop path that turns 100 into
  101.5 the gross profit is 1.5, the gas estimate is 1.5, the net profit and the profit
  percentage are 0, and the opportunity is rejected at a minimum of 1 percent.
\<close>

theorem calculateProfitability_subtracts_gas:
  "calculateProfitability half_unit_quote 0 path_abc 100
     = Inr \<lparr>path = path_abc, inputAmount = 100, expectedOutputAmount = 203 / 2,
             grossProfit = 3 / 2, gasEstimate = 3 / 2, netProfit = 0, profitPercentage = 0,
             priceImpacts = [0, 0, 0], timestamp = 0\<rparr> \<and>
   filterProfitable
     [\<lparr>path = path_abc, inputAmount = 100, expectedOutputAmount = 203 / 2,
       grossProfit = 3 / 2, gasEstimate = 3 / 2, netProfit = 0, profitPercentage = 0,
       priceImpacts = [0, 0, 0], timestamp = 0\<rparr>] 1 = []"
  by (simp add: calculateProfitability_def path_abc_fields quote_hops_abc estimateGasCost_def
      filterProfitable_def)

text \<open>
  The second copy of the calculator on the same input does what the claim describes: net
  profit 1.47 and 1.47 percent, accepted at a minimum of 1 percent and rejected at 2.
\<close>

lemma calculateProfitability_bignumber_example:
  "calculateProfitability_bignumber half_unit_quote 0 path_abc 100
     = Inr \<lparr>path = path_abc, inputAmount = 100, expectedOutputAmount = 203 / 2,
             grossProfit = 3 / 2, gasEstimate = 3 / 2, netProfit = 147 / 100,
             profitPercentage = 147 / 100, priceImpacts = [0, 0, 0], timestamp = 0\<rparr> \<and>
   length (filterProfitable
     [\<lparr>path = path_abc, inputAmount = 100, expectedOutputAmount = 203 / 2,
       grossProfit = 3 / 2, gasEstimate = 3 / 2, netProfit = 147 / 100,
       profitPercentage = 147 / 100, priceImpacts = [0, 0, 0], timestamp = 0\<rparr>] 1) = 1 \<and>
   filterProfitable
     [\<lparr>path = path_abc, inputAmount = 100, expectedOutputAmount = 203 / 2,
       grossProfit = 3 / 2, gasEstimate = 3 / 2, netProfit = 147 / 100,
       profitPercentage = 147 / 100, priceImpacts = [0, 0, 0], timestamp = 0\<rparr>] 2 = []"
  by (simp add: calculateProfitability_bignumber_def path_abc_fields quote_hops_abc
      estimateGasCost_def filterProfitable_def Let_def)

lemma insert_by_insort_key:
  "insert_by (\<lambda>a b. profitPercentage b - profitPercentage a) x ys
   = insort_key (\<lambda>opp. - profitPercentage opp) x ys"
  by (induction ys) simp_all

lemma sortByProfitability_sort_key:
  "sortByProfitability opps = sort_key (\<lambda>opp. - profitPercentage opp) opps"
  unfolding sortByProfitability_def
  by (induction opps) (simp_all add: insert_by_insort_key)

text \<open>
  Claim C9 as stated fails: of two opportunities with the same profit percentage the
  3-hop one, given first, stays in front of the 2-hop one.
\<close>

theorem sortByProfitability_ties_counterexample:
  "sortByProfitability (filterProfitable [opp_of 3 2 7, opp_of 2 2 9] 1)
     = [opp_of 3 2 7, opp_of 2 2 9] \<and>
   \<not> sorted_wrt spec_ranked_before
        (sortByProfitability (filterProfitable [opp_of 3 2 7, opp_of 2 2 9] 1))"
  by (simp add: sortByProfitability_def filterProfitable_def opp_of_def spec_ranked_before_def)

text \<open>
  Claim C9, amended. For every list of opportunities and minimum-profit threshold, the
  filtered and sorted output contains exactly those opportunities with strictly positive
  net profit and profit percentage at or above the threshold, ordered by descending profit
  percentage; opportunities with equal profit percentage keep the order they had in the
  input.
\<close>

theorem filter_and_sort_by_profitability:
  "mset (sortByProfitability (filterProfitable opps m))
     = mset (filter (\<lambda>opp. netProfit opp > 0 \<and> profitPercentage opp \<ge> m) opps) \<and>
   sorted_wrt (\<lambda>a b. profitPercentage a \<ge> profitPercentage b)
     (sortByProfitability (filterProfitable opps m)) \<and>
   filter (\<lambda>opp. profitPercentage opp = k) (sortByProfitability (filterProfitable opps m))
     = filter (\<lambda>opp. profitPercentage opp = k \<and> netProfit opp > 0 \<and> profitPercentage opp \<ge> m) opps"
proof -
  let ?f = "\<lambda>opp::ArbitrageOpportunity. - profitPercentage opp"
  let ?xs = "filterProfitable opps m"
  have members: "mset (sortByProfitability ?xs)
      = mset (filter (\<lambda>opp. netProfit opp > 0 \<and> profitPercentage opp \<ge> m) opps)"
    by (simp add: sortByProfitability_sort_key filterProfitable_def)
  have "sorted (map ?f (sort_key ?f ?xs))"
    by (rule sorted_sort_key)
  then have descending: "sorted_wrt (\<lambda>a b. profitPercentage a \<ge> profitPercentage b)
      (sortByProfitability ?xs)"
    by (simp add: sortByProfitability_sort_key sorted_map)
  have "filter (\<lambda>opp. ?f opp = - k) (sort_key ?f ?xs) = filter (\<lambda>opp. ?f opp = - k) ?xs"
    by (rule sort_key_stable)
  then have ties: "filter (\<lambda>opp. profitPercentage opp = k) (sortByProfitability ?xs)
      = filter (\<lambda>opp. profitPercentage opp = k \<and> netProfit opp > 0 \<and> profitPercentage opp \<ge> m) opps"
    by (simp add: sortByProfitability_sort_key filterProfitable_def conj_commute)
  from members descending ties show ?thesis by blast
qed

section \<open>Trading strategy: dry run\<close>

lemma trades_loop_dry_run:
  "\<not> enableTrading cfg \<Longrightarrow> trades_loop cfg tr now st results ts = (Inr results, st)"
  by (induction ts) simp_all

text \<open>
  Claim C4 as stated fails: in a dry run a batch of one intent returns no result and
  leaves the trade history empty.
\<close>

theorem executeTrades_dry_run_counterexample:
  "executeTradesForPreferredToken cfg_dca quote100 0 fresh_state
     [\<lparr>token = gusdc 50, targetToken = ''SILK|Unit|none|none'', amount = 5\<rparr>]
   = (Inr [], \<lparr>tradeHistory = [], calls = []\<rparr>)"
  by (simp add: executeTradesForPreferredToken_def cfg_dca_def fresh_state_def)

text \<open>
  Claim C4, amended. When \<open>enableTrading\<close> is false, executing a batch of trade intents
  calls no submission endpoint (it makes no call at all), returns no results and leaves
  the trade history as it was: each intent is only logged. The synthetic success with
  \<open>amountOut = amount \<times> 0.98\<close> and a fabricated transaction id, appended to the trade
  history, is what \<open>executeTrade\<close> produces when it is called directly in a dry run, again
  without any call to the transport.
\<close>

theorem dry_run_batch_and_single_trade:
  assumes "\<not> enableTrading cfg"
  shows "executeTradesForPreferredToken cfg tr now st trades = (Inr [], st) \<and>
     executeTrade cfg tr now st fromTok toTok amt feeOpt =
       (\<lparr>success = True, fromToken = fromTok, toToken = toTok, amountIn = amt,
         amountOut = Some (amt * (98 / 100)),
         transactionId = Some (''mock-tx-'' @ show_nat now), error_message = None,
         result_timestamp = now\<rparr>,
        st\<lparr>tradeHistory := tradeHistory st @
           [\<lparr>success = True, fromToken = fromTok, toToken = toTok, amountIn = amt,
             amountOut = Some (amt * (98 / 100)),
             transactionId = Some (''mock-tx-'' @ show_nat now), error_message = None,
             result_timestamp = now\<rparr>]\<rparr>)"
  using assms
  by (simp add: executeTradesForPreferredToken_def trades_loop_dry_run executeTrade_def Let_def)

text \<open>
  The theorem at the scenario configuration: the GUSDC intent of the happy path gives an
  empty batch result, and the same trade executed directly gives 4.9 SILK on paper.
\<close>

theorem dry_run_batch_and_single_trade_witness:
  "\<not> enableTrading cfg_dca \<and>
   executeTradesForPreferredToken cfg_dca quote100 7 fresh_state
     [\<lparr>token = gusdc 50, targetToken = ''SILK|Unit|none|none'', amount = 5\<rparr>]
     = (Inr [], fresh_state) \<and>
   executeTrade cfg_dca quote100 7 fresh_state ''GUSDC|Unit|none|none'' ''SILK|Unit|none|none'' 5 None
     = (\<lparr>success = True, fromToken = ''GUSDC|Unit|none|none'', toToken = ''SILK|Unit|none|none'',
          amountIn = 5, amountOut = Some (49 / 10), transactionId = Some ''mock-tx-7'',
          error_message = None, result_timestamp = 7\<rparr>,
        \<lparr>tradeHistory =
           [\<lparr>success = True, fromToken = ''GUSDC|Unit|none|none'', toToken = ''SILK|Unit|none|none'',
             amountIn = 5, amountOut = Some (49 / 10), transactionId = Some ''mock-tx-7'',
             error_message = None, result_timestamp = 7\<rparr>],
          calls = []\<rparr>)"
proof -
  have d: "\<not> enableTrading cfg_dca"
    by (simp add: cfg_dca_def)
  have s: "show_nat 7 = ''7''"
    by (simp add: show_nat.simps[of 7] digit_def)
  from dry_run_batch_and_single_trade[OF d, of quote100 7 fresh_state
      "[\<lparr>token = gusdc 50, targetToken = ''SILK|Unit|none|none'', amount = 5\<rparr>]"
      "''GUSDC|Unit|none|none''" "''SILK|Unit|none|none''" 5 None] d s
  show ?thesis by (simp add: fresh_state_def)
qed

section \<open>Trading strategy: the slippage bound of a live swap\<close>

lemma submit_swap_calls:
  "CallSwap a b f x m w \<in> set (snd (submit_swap cfg tr fromTok toTok amt poolFee out)) \<Longrightarrow>
   a = fromTok \<and> b = toTok \<and> f = poolFee \<and> x = amt \<and> w = walletAddress cfg \<and>
   m = \<bar>out\<bar> * (1 - maxSlippage cfg / 100)"
  by (auto simp: submit_swap_def Let_def split: if_splits sum.splits option.splits)

lemma probe_tiers_no_swap: "CallSwap a b f x m w \<notin> set (snd (probe_tiers tr ta tb fs))"
  by (induction fs) (auto simp: Let_def split: prod.splits)

lemma findAvailablePools_no_swap:
  "CallSwap a b f x m w \<notin> set (snd (findAvailablePools tr ta tb))"
  using probe_tiers_no_swap[of a b f x m w tr ta tb "[500, 3000, 10000]"]
  by (simp add: findAvailablePools_def split: prod.splits)

lemma select_fee_no_swap: "CallSwap a b f x m w \<notin> set (snd (select_fee tr ta tb feeOpt))"
  using findAvailablePools_no_swap[of a b f x m w tr ta tb]
  by (auto simp: select_fee_def split: prod.splits list.splits)

lemma live_trade_calls:
  assumes "CallSwap a b f x m w \<in> set (snd (live_trade cfg tr fromTok toTok amt feeOpt))"
  shows "\<exists>q out. quoteExactInput tr fromTok toTok amt f = Inr q \<and> quoted_output q = Some out \<and>
     m = \<bar>out\<bar> * (1 - maxSlippage cfg / 100) \<and> a = fromTok \<and> b = toTok \<and> x = amt"
proof (cases "select_fee tr fromTok toTok feeOpt")
  case (Pair r cs)
  have ns: "CallSwap a b f x m w \<notin> set cs"
    using select_fee_no_swap[of a b f x m w tr fromTok toTok feeOpt] Pair by simp
  show ?thesis
  proof (cases r)
    case (Inl msg)
    with Pair assms ns show ?thesis by (simp add: live_trade_def)
  next
    case (Inr poolFee)
    show ?thesis
    proof (cases "quoteExactInput tr fromTok toTok amt poolFee")
      case (Inl e)
      with Pair Inr assms ns show ?thesis by (simp add: live_trade_def)
    next
      case q: (Inr quote)
      show ?thesis
      proof (cases "quoted_output quote")
        case None
        with Pair Inr q assms ns show ?thesis by (simp add: live_trade_def)
      next
        case (Some out)
        with Pair Inr q assms ns
        have "CallSwap a b f x m w \<in> set (snd (submit_swap cfg tr fromTok toTok amt poolFee out))"
          by (simp add: live_trade_def split: prod.splits)
        from submit_swap_calls[OF this] q Some show ?thesis by simp
      qed
    qed
  qed
qed

lemma executeTrade_live_calls:
  "enableTrading cfg \<Longrightarrow>
   calls (snd (executeTrade cfg tr now st fromTok toTok amt feeOpt))
     = calls st @ snd (live_trade cfg tr fromTok toTok amt feeOpt)"
  by (simp add: executeTrade_def Let_def split: prod.splits)

lemma quote100_fields:
  "getPoolData quote100 a b 500 = Inl (Error ''no pool'')"
  "getPoolData quote100 a b 3000 = Inr \<lparr>reply_liquidity = Some 1000, reply_sqrtPrice = 1\<rparr>"
  "getPoolData quote100 a b 10000 = Inl (Error ''no pool'')"
  "quoteExactInput quote100 a b x f = Inr \<lparr>reply_amountOut = Some 100, reply_outTokenAmount = None\<rparr>"
  "eventSocketConnected quote100"
  "swap quote100 a b f x m w = Inr \<lparr>tx_transactionId = ''tx-1'', tx_wait = None\<rparr>"
  by (simp_all add: quote100_def)

lemma live_trade_quote100:
  "live_trade cfg_live quote100 ''GUSDC|Unit|none|none'' ''SILK|Unit|none|none'' 5 None
   = (Inr (100, ''tx-1''),
      [CallGetPoolData ''GUSDC|Unit|none|none'' ''SILK|Unit|none|none'' 500,
       CallGetPoolData ''GUSDC|Unit|none|none'' ''SILK|Unit|none|none'' 3000,
       CallGetPoolData ''GUSDC|Unit|none|none'' ''SILK|Unit|none|none'' 10000,
       CallQuote ''GUSDC|Unit|none|none'' ''SILK|Unit|none|none'' 5 3000,
       CallSwap ''GUSDC|Unit|none|none'' ''SILK|Unit|none|none'' 3000 5 95 ''eth|0123'',
       CallWait ''tx-1''])"
  by (simp add: live_trade_def select_fee_def findAvailablePools_def quote100_fields
      best_pool_def quoted_output_def submit_swap_def Let_def cfg_live_def cfg_dca_def)

lemma quoted_output_fields:
  "quoted_output q = Some out \<longleftrightarrow>
   reply_amountOut q = Some out \<or> reply_amountOut q = None \<and> reply_outTokenAmount q = Some out"
  by (cases "reply_amountOut q") (simp_all add: quoted_output_def)

lemma select_fee_given: "f \<noteq> 0 \<Longrightarrow> select_fee tr fromTok toTok (Some f) = (Inr f, [])"
  by (simp add: select_fee_def)

lemma submit_swap_submits:
  "eventSocketConnected tr \<or> connectEventSocket tr = None \<Longrightarrow>
   CallSwap fromTok toTok poolFee amt (\<bar>out\<bar> * (1 - maxSlippage cfg / 100)) (walletAddress cfg)
     \<in> set (snd (submit_swap cfg tr fromTok toTok amt poolFee out))"
  by (auto simp: submit_swap_def Let_def split: sum.splits option.splits)

lemma live_trade_submits:
  assumes "f \<noteq> 0" and "quoteExactInput tr fromTok toTok amt f = Inr q"
    and "quoted_output q = Some out"
    and "eventSocketConnected tr \<or> connectEventSocket tr = None"
  shows "CallSwap fromTok toTok f amt (\<bar>out\<bar> * (1 - maxSlippage cfg / 100)) (walletAddress cfg)
     \<in> set (snd (live_trade cfg tr fromTok toTok amt (Some f)))"
  using assms(1-3) submit_swap_submits[OF assms(4), of fromTok toTok f amt out cfg]
  by (auto simp: live_trade_def select_fee_given split: prod.splits)

lemma quote_minus200_fields:
  "getPoolData quote_minus200 a b 500 = Inl (Error ''no pool'')"
  "getPoolData quote_minus200 a b 3000 = Inr \<lparr>reply_liquidity = Some 1000, reply_sqrtPrice = 1\<rparr>"
  "getPoolData quote_minus200 a b 10000 = Inl (Error ''no pool'')"
  "quoteExactInput quote_minus200 a b x f
     = Inr \<lparr>reply_amountOut = None, reply_outTokenAmount = Some (- 200)\<rparr>"
  "eventSocketConnected quote_minus200"
  "swap quote_minus200 a b f x m w = Inr \<lparr>tx_transactionId = ''tx-2'', tx_wait = None\<rparr>"
  by (simp_all add: quote_minus200_def)

lemma live_trade_quote_minus200:
  "live_trade cfg_live quote_minus200 ''GUSDC|Unit|none|none'' ''SILK|Unit|none|none'' 5 None
   = (Inr (200, ''tx-2''),
      [CallGetPoolData ''GUSDC|Unit|none|none'' ''SILK|Unit|none|none'' 500,
       CallGetPoolData ''GUSDC|Unit|none|none'' ''SILK|Unit|none|none'' 3000,
       CallGetPoolData ''GUSDC|Unit|none|none'' ''SILK|Unit|none|none'' 10000,
       CallQuote ''GUSDC|Unit|none|none'' ''SILK|Unit|none|none'' 5 3000,
       CallSwap ''GUSDC|Unit|none|none'' ''SILK|Unit|none|none'' 3000 5 190 ''eth|0123'',
       CallWait ''tx-2''])"
  by (simp add: live_trade_def select_fee_def findAvailablePools_def quote_minus200_fields
      best_pool_def quoted_output_def submit_swap_def Let_def cfg_live_def cfg_dca_def)

text \<open>
  Claim C7. In a live execution every swap that \<open>executeTrade\<close> submits carries as
  \<open>amountOutMinimum\<close> the quoted expected output multiplied by \<open>1 - maxSlippage / 100\<close>,
  where the quoted expected output is the absolute value of the \<open>amountOut\<close> field of the
  quote returned for that pair, amount and fee, or of its \<open>outTokenAmount\<close> field when
  \<open>amountOut\<close> is absent. Conversely, when a fee is given, the quote carries an output
  and the event socket is or becomes connected, the swap with exactly that minimum is
  submitted. With a quote of 100 and a maximum slippage of 5 the submission carries 95;
  with a quote of -200 under \<open>outTokenAmount\<close> it carries 190.
\<close>

theorem executeTrade_amountOutMinimum:
  assumes "enableTrading cfg"
  shows "(CallSwap a b f x m w \<in> set (calls (snd (executeTrade cfg tr now st fromTok toTok amt feeOpt))) \<longrightarrow>
      CallSwap a b f x m w \<in> set (calls st) \<or>
      (\<exists>q out. quoteExactInput tr fromTok toTok amt f = Inr q \<and>
         (reply_amountOut q = Some out \<or>
          reply_amountOut q = None \<and> reply_outTokenAmount q = Some out) \<and>
         m = \<bar>out\<bar> * (1 - maxSlippage cfg / 100) \<and> a = fromTok \<and> b = toTok \<and> x = amt)) \<and>
    (g \<noteq> 0 \<and> quoteExactInput tr fromTok toTok amt g = Inr r \<and>
       (reply_amountOut r = Some v \<or> reply_amountOut r = None \<and> reply_outTokenAmount r = Some v) \<and>
       (eventSocketConnected tr \<or> connectEventSocket tr = None) \<longrightarrow>
     CallSwap fromTok toTok g amt (\<bar>v\<bar> * (1 - maxSlippage cfg / 100)) (walletAddress cfg)
       \<in> set (calls (snd (executeTrade cfg tr now st fromTok toTok amt (Some g))))) \<and>
    calls (snd (executeTrade cfg_live quote100 now fresh_state
              ''GUSDC|Unit|none|none'' ''SILK|Unit|none|none'' 5 None))
      = [CallGetPoolData ''GUSDC|Unit|none|none'' ''SILK|Unit|none|none'' 500,
         CallGetPoolData ''GUSDC|Unit|none|none'' ''SILK|Unit|none|none'' 3000,
         CallGetPoolData ''GUSDC|Unit|none|none'' ''SILK|Unit|none|none'' 10000,
         CallQuote ''GUSDC|Unit|none|none'' ''SILK|Unit|none|none'' 5 3000,
         CallSwap ''GUSDC|Unit|none|none'' ''SILK|Unit|none|none'' 3000 5 95 ''eth|0123'',
         CallWait ''tx-1''] \<and>
    calls (snd (executeTrade cfg_live quote_minus200 now fresh_state
              ''GUSDC|Unit|none|none'' ''SILK|Unit|none|none'' 5 None))
      = [CallGetPoolData ''GUSDC|Unit|none|none'' ''SILK|Unit|none|none'' 500,
         CallGetPoolData ''GUSDC|Unit|none|none'' ''SILK|Unit|none|none'' 3000,
         CallGetPoolData ''GUSDC|Unit|none|none'' ''SILK|Unit|none|none'' 10000,
         CallQuote ''GUSDC|Unit|none|none'' ''SILK|Unit|none|none'' 5 3000,
         CallSwap ''GUSDC|Unit|none|none'' ''SILK|Unit|none|none'' 3000 5 190 ''eth|0123'',
         CallWait ''tx-2'']"
proof (intro conjI impI)
  assume "CallSwap a b f x m w \<in> set (calls (snd (executeTrade cfg tr now st fromTok toTok amt feeOpt)))"
  then have "CallSwap a b f x m w \<in> set (calls st) \<or>
      CallSwap a b f x m w \<in> set (snd (live_trade cfg tr fromTok toTok amt feeOpt))"
    using assms by (simp add: executeTrade_live_calls)
  then show "CallSwap a b f x m w \<in> set (calls st) \<or>
      (\<exists>q out. quoteExactInput tr fromTok toTok amt f = Inr q \<and>
         (reply_amountOut q = Some out \<or>
          reply_amountOut q = None \<and> reply_outTokenAmount q = Some out) \<and>
         m = \<bar>out\<bar> * (1 - maxSlippage cfg / 100) \<and> a = fromTok \<and> b = toTok \<and> x = amt)"
    using live_trade_calls[of a b f x m w cfg tr fromTok toTok amt feeOpt]
    by (auto simp: quoted_output_fields)
next
  assume p: "g \<noteq> 0 \<and> quoteExactInput tr fromTok toTok amt g = Inr r \<and>
       (reply_amountOut r = Some v \<or> reply_amountOut r = None \<and> reply_outTokenAmount r = Some v) \<and>
       (eventSocketConnected tr \<or> connectEventSocket tr = None)"
  then have "quoted_output r = Some v"
    by (simp add: quoted_output_fields)
  with p have "CallSwap fromTok toTok g amt (\<bar>v\<bar> * (1 - maxSlippage cfg / 100)) (walletAddress cfg)
     \<in> set (snd (live_trade cfg tr fromTok toTok amt (Some g)))"
    by (intro live_trade_submits) simp_all
  then show "CallSwap fromTok toTok g amt (\<bar>v\<bar> * (1 - maxSlippage cfg / 100)) (walletAddress cfg)
       \<in> set (calls (snd (executeTrade cfg tr now st fromTok toTok amt (Some g))))"
    using assms by (simp add: executeTrade_live_calls)
next
  have "enableTrading cfg_live"
    by (simp add: cfg_live_def)
  from executeTrade_live_calls[OF this]
  show "calls (snd (executeTrade cfg_live quote100 now fresh_state
              ''GUSDC|Unit|none|none'' ''SILK|Unit|none|none'' 5 None))
      = [CallGetPoolData ''GUSDC|Unit|none|none'' ''SILK|Unit|none|none'' 500,
         CallGetPoolData ''GUSDC|Unit|none|none'' ''SILK|Unit|none|none'' 3000,
         CallGetPoolData ''GUSDC|Unit|none|none'' ''SILK|Unit|none|none'' 10000,
         CallQuote ''GUSDC|Unit|none|none'' ''SILK|Unit|none|none'' 5 3000,
         CallSwap ''GUSDC|Unit|none|none'' ''SILK|Unit|none|none'' 3000 5 95 ''eth|0123'',
         CallWait ''tx-1'']"
    by (simp add: live_trade_quote100 fresh_state_def)
next
  have "enableTrading cfg_live"
    by (simp add: cfg_live_def)
  from executeTrade_live_calls[OF this]
  show "calls (snd (executeTrade cfg_live quote_minus200 now fresh_state
              ''GUSDC|Unit|none|none'' ''SILK|Unit|none|none'' 5 None))
      = [CallGetPoolData ''GUSDC|Unit|none|none'' ''SILK|Unit|none|none'' 500,
         CallGetPoolData ''GUSDC|Unit|none|none'' ''SILK|Unit|none|none'' 3000,
         CallGetPoolData ''GUSDC|Unit|none|none'' ''SILK|Unit|none|none'' 10000,
         CallQuote ''GUSDC|Unit|none|none'' ''SILK|Unit|none|none'' 5 3000,
         CallSwap ''GUSDC|Unit|none|none'' ''SILK|Unit|none|none'' 3000 5 190 ''eth|0123'',
         CallWait ''tx-2'']"
    by (simp add: live_trade_quote_minus200 fresh_state_def)
qed

text \<open>
  The theorem at the live configuration with maximum slippage 5, starting from an empty
  log, on two transports. Where the quote is \<open>amountOut = 100\<close> the swap in the log is the
  one submitted by this execution, with minimum output 95. Where the quote is
  \<open>outTokenAmount = -200\<close> the minimum output is 190, both when the fee tier is detected
  and when the fee 500 is given.
\<close>

theorem executeTrade_amountOutMinimum_witness:
  "enableTrading cfg_live \<and>
   CallSwap ''GUSDC|Unit|none|none'' ''SILK|Unit|none|none'' 3000 5 95 ''eth|0123''
     \<in> set (calls (snd (executeTrade cfg_live quote100 0 fresh_state
                 ''GUSDC|Unit|none|none'' ''SILK|Unit|none|none'' 5 None))) \<and>
   calls fresh_state = [] \<and>
   quoteExactInput quote100 ''GUSDC|Unit|none|none'' ''SILK|Unit|none|none'' 5 3000
     = Inr \<lparr>reply_amountOut = Some 100, reply_outTokenAmount = None\<rparr> \<and>
   (95 :: number) = \<bar>100\<bar> * (1 - maxSlippage cfg_live / 100) \<and>
   CallSwap ''GUSDC|Unit|none|none'' ''SILK|Unit|none|none'' 3000 5 190 ''eth|0123''
     \<in> set (calls (snd (executeTrade cfg_live quote_minus200 0 fresh_state
                 ''GUSDC|Unit|none|none'' ''SILK|Unit|none|none'' 5 None))) \<and>
   quoteExactInput quote_minus200 ''GUSDC|Unit|none|none'' ''SILK|Unit|none|none'' 5 3000
     = Inr \<lparr>reply_amountOut = None, reply_outTokenAmount = Some (- 200)\<rparr> \<and>
   (190 :: number) = \<bar>- 200\<bar> * (1 - maxSlippage cfg_live / 100) \<and>
   (500 :: nat) \<noteq> 0 \<and>
   eventSocketConnected quote_minus200 \<and>
   CallSwap ''GUSDC|Unit|none|none'' ''SILK|Unit|none|none'' 500 5 190 ''eth|0123''
     \<in> set (calls (snd (executeTrade cfg_live quote_minus200 0 fresh_state
                 ''GUSDC|Unit|none|none'' ''SILK|Unit|none|none'' 5 (Some 500))))"
proof -
  have e: "enableTrading cfg_live"
    by (simp add: cfg_live_def)
  have n: "calls fresh_state = []"
    by (simp add: fresh_state_def)
  have w: "walletAddress cfg_live = ''eth|0123''" and sl: "maxSlippage cfg_live = 5"
    by (simp_all add: cfg_live_def cfg_dca_def)
  note t1 = executeTrade_amountOutMinimum[OF e, of "''GUSDC|Unit|none|none''" "''SILK|Unit|none|none''"
      3000 5 95 "''eth|0123''" quote100 0 fresh_state "''GUSDC|Unit|none|none''"
      "''SILK|Unit|none|none''" 5 None 3000
      "\<lparr>reply_amountOut = Some 100, reply_outTokenAmount = None\<rparr>" 100]
  from t1[THEN conjunct2, THEN conjunct2, THEN conjunct1]
  have i1: "CallSwap ''GUSDC|Unit|none|none'' ''SILK|Unit|none|none'' 3000 5 95 ''eth|0123''
     \<in> set (calls (snd (executeTrade cfg_live quote100 0 fresh_state
                 ''GUSDC|Unit|none|none'' ''SILK|Unit|none|none'' 5 None)))"
    by simp
  from t1[THEN conjunct1, THEN mp, OF i1]
  have m1: "(95 :: number) = \<bar>100\<bar> * (1 - maxSlippage cfg_live / 100)"
    unfolding n by (simp add: quote100_fields)
  note t2 = executeTrade_amountOutMinimum[OF e, of "''GUSDC|Unit|none|none''" "''SILK|Unit|none|none''"
      3000 5 190 "''eth|0123''" quote_minus200 0 fresh_state "''GUSDC|Unit|none|none''"
      "''SILK|Unit|none|none''" 5 None 500
      "\<lparr>reply_amountOut = None, reply_outTokenAmount = Some (- 200)\<rparr>" "- 200"]
  from t2[THEN conjunct2, THEN conjunct2, THEN conjunct2]
  have i2: "CallSwap ''GUSDC|Unit|none|none'' ''SILK|Unit|none|none'' 3000 5 190 ''eth|0123''
     \<in> set (calls (snd (executeTrade cfg_live quote_minus200 0 fresh_state
                 ''GUSDC|Unit|none|none'' ''SILK|Unit|none|none'' 5 None)))"
    by simp
  from t2[THEN conjunct1, THEN mp, OF i2]
  have m2: "(190 :: number) = \<bar>- 200\<bar> * (1 - maxSlippage cfg_live / 100)"
    unfolding n by (simp add: quote_minus200_fields)
  have p: "(500 :: nat) \<noteq> 0 \<and>
       quoteExactInput quote_minus200 ''GUSDC|Unit|none|none'' ''SILK|Unit|none|none'' 5 500
         = Inr \<lparr>reply_amountOut = None, reply_outTokenAmount = Some (- 200)\<rparr> \<and>
       (reply_amountOut \<lparr>reply_amountOut = None, reply_outTokenAmount = Some (- 200 :: number)\<rparr> = Some (- 200) \<or>
        reply_amountOut \<lparr>reply_amountOut = None, reply_outTokenAmount = Some (- 200 :: number)\<rparr> = None \<and>
        reply_outTokenAmount \<lparr>reply_amountOut = None, reply_outTokenAmount = Some (- 200 :: number)\<rparr> = Some (- 200)) \<and>
       (eventSocketConnected quote_minus200 \<or> connectEventSocket quote_minus200 = None)"
    by (simp add: quote_minus200_fields)
  from t2[THEN conjunct2, THEN conjunct1, THEN mp, OF p]
  have i3: "CallSwap ''GUSDC|Unit|none|none'' ''SILK|Unit|none|none'' 500 5 190 ''eth|0123''
     \<in> set (calls (snd (executeTrade cfg_live quote_minus200 0 fresh_state
                 ''GUSDC|Unit|none|none'' ''SILK|Unit|none|none'' 5 (Some 500))))"
    by (simp add: w sl)
  have q1: "quoteExactInput quote100 ''GUSDC|Unit|none|none'' ''SILK|Unit|none|none'' 5 3000
     = Inr \<lparr>reply_amountOut = Some 100, reply_outTokenAmount = None\<rparr>"
    by (simp add: quote100_fields)
  have q2: "quoteExactInput quote_minus200 ''GUSDC|Unit|none|none'' ''SILK|Unit|none|none'' 5 3000
     = Inr \<lparr>reply_amountOut = None, reply_outTokenAmount = Some (- 200)\<rparr>"
    by (simp add: quote_minus200_fields)
  have z: "(500 :: nat) \<noteq> 0" by simp
  have c: "eventSocketConnected quote_minus200" by (simp add: quote_minus200_fields)
  show ?thesis
    by (intro conjI) (rule e i1 n q1 m1 i2 q2 m2 z c i3)+
qed

section \<open>Pool snapshot cache\<close>

lemma getCacheKey_commute: "getCacheKey t0 t1 f = getCacheKey t1 t0 f"
  by (cases "t0 < t1"; cases "t1 < t0") (auto simp: getCacheKey_def)

lemma getCompositePoolData_hit:
  "poolCache mgr (call_key c) = Some e \<Longrightarrow> now_check c < expiresAt e \<Longrightarrow>
   getCompositePoolData gw mgr c = (Inr (data e), mgr)"
  by (simp add: getCompositePoolData_def call_key_def Let_def)

lemma get_sequence_hit:
  "poolCache mgr k = Some e \<Longrightarrow> \<forall>c\<in>set cs. call_key c = k \<and> now_check c < expiresAt e \<Longrightarrow>
   get_sequence gw mgr cs = (map (\<lambda>_. Inr (data e)) cs, mgr)"
  by (induction cs) (simp_all add: getCompositePoolData_hit)

lemma fetchCompositePoolData_posts:
  "fetchCompositePoolData gw mgr now a b f = (r, mgr1) \<Longrightarrow>
   poolCache mgr1 = poolCache mgr \<and> cacheTTL mgr1 = cacheTTL mgr \<and>
   (posts mgr1 = posts mgr \<or> (\<exists>p. posts mgr1 = posts mgr @ [p]))"
  by (auto simp: fetchCompositePoolData_def Let_def split: sum.splits option.splits)

lemma getCompositePoolData_entry:
  assumes "getCompositePoolData gw mgr c = (Inr d, mgr1)"
  shows "\<exists>e. poolCache mgr1 (call_key c) = Some e \<and> data e = d \<and>
     (posts mgr1 = posts mgr \<or> (\<exists>p. posts mgr1 = posts mgr @ [p]))"
proof (cases "poolCache mgr (call_key c) \<noteq> None \<and>
              now_check c < expiresAt (the (poolCache mgr (call_key c)))")
  case True
  with assms show ?thesis
    by (auto simp: getCompositePoolData_def call_key_def Let_def)
next
  case False
  obtain r m where f: "fetchCompositePoolData gw mgr (now_fetched c)
                         (get_token0 c) (get_token1 c) (get_fee c) = (r, m)"
    by (cases "fetchCompositePoolData gw mgr (now_fetched c)
                 (get_token0 c) (get_token1 c) (get_fee c)")
  from fetchCompositePoolData_posts[OF f] False assms f show ?thesis
    by (cases r) (auto simp: getCompositePoolData_def call_key_def Let_def)
qed

lemma call_key_swapped: "call_key call_swapped = call_key call_first"
  by (simp add: call_key_def call_swapped_def call_first_def getCacheKey_commute)

lemma parseTokenKey_examples:
  "parseTokenKey ''SILK|Unit|none|none'' = Inr (''SILK'', ''Unit'', ''none'', ''none'')"
  "parseTokenKey ''GALA|Unit|none|none'' = Inr (''GALA'', ''Unit'', ''none'', ''none'')"
  by (simp_all add: parseTokenKey_def)

lemma getCompositePoolData_first:
  "getCompositePoolData gateway_ok (new_PoolDataManager None) call_first
   = (Inr snapshot_first, manager_after_first)"
  by (simp add: getCompositePoolData_def fetchCompositePoolData_def new_PoolDataManager_def
      parseTokenKey_examples gateway_ok_def call_first_def snapshot_first_def
      manager_after_first_def call_key_def Let_def)

text \<open>
  Claim C8. The cache key does not depend on the order of the two tokens, so
  \<open>getCompositePoolData(t0, t1, fee)\<close> and \<open>getCompositePoolData(t1, t0, fee)\<close> address
  the same entry. A call that returns a snapshot leaves an entry for its key holding that
  snapshot, at the price of at most one POST; and every later sequence of awaited calls
  on that key, in either token order, each made before the entry's expiry, returns the
  cached snapshot and changes neither the cache nor the list of POSTs. So a key sees at
  most one fetch during an entry's validity window.
\<close>

theorem pool_cache_single_fetch:
  "getCacheKey t0 t1 f = getCacheKey t1 t0 f \<and>
   (getCompositePoolData gw mgr c = (Inr d, mgr1) \<longrightarrow>
     (\<exists>e. poolCache mgr1 (call_key c) = Some e \<and> data e = d \<and>
        length (posts mgr1) \<le> length (posts mgr) + 1 \<and>
        ((\<forall>c'\<in>set cs. call_key c' = call_key c \<and> now_check c' < expiresAt e) \<longrightarrow>
           get_sequence gw mgr1 cs = (map (\<lambda>_. Inr d) cs, mgr1))))"
proof (intro conjI impI)
  show "getCacheKey t0 t1 f = getCacheKey t1 t0 f"
    by (rule getCacheKey_commute)
next
  assume a: "getCompositePoolData gw mgr c = (Inr d, mgr1)"
  from getCompositePoolData_entry[OF a] obtain e where
    e: "poolCache mgr1 (call_key c) = Some e" "data e = d"
       "posts mgr1 = posts mgr \<or> (\<exists>p. posts mgr1 = posts mgr @ [p])"
    by blast
  from e(3) have len: "length (posts mgr1) \<le> length (posts mgr) + 1"
    by auto
  have "get_sequence gw mgr1 cs = (map (\<lambda>_. Inr d) cs, mgr1)"
    if "\<forall>c'\<in>set cs. call_key c' = call_key c \<and> now_check c' < expiresAt e"
    using get_sequence_hit[OF e(1) that, of gw] e(2) by simp
  with e len
  show "\<exists>e. poolCache mgr1 (call_key c) = Some e \<and> data e = d \<and>
        length (posts mgr1) \<le> length (posts mgr) + 1 \<and>
        ((\<forall>c'\<in>set cs. call_key c' = call_key c \<and> now_check c' < expiresAt e) \<longrightarrow>
           get_sequence gw mgr1 cs = (map (\<lambda>_. Inr d) cs, mgr1))"
    by blast
qed

text \<open>
  The theorem on a fresh manager with the default TTL: the first call, for (SILK, GALA,
  3000) stored at time 2, fetches once and leaves an entry expiring at 60002; the call for
  (GALA, SILK, 3000) at time 60001 has the same key, comes before the expiry, and is
  served from the cache with the single POST still the only one.
\<close>

theorem pool_cache_single_fetch_witness:
  "getCompositePoolData gateway_ok (new_PoolDataManager None) call_first
     = (Inr snapshot_first, manager_after_first) \<and>
   poolCache manager_after_first (call_key call_first)
     = Some \<lparr>data = snapshot_first, expiresAt = 60002\<rparr> \<and>
   call_key call_swapped = call_key call_first \<and>
   now_check call_swapped < 60002 \<and>
   get_sequence gateway_ok manager_after_first [call_swapped]
     = ([Inr snapshot_first], manager_after_first) \<and>
   length (posts manager_after_first) = 1"
proof -
  have p: "poolCache manager_after_first (call_key call_first)
     = Some \<lparr>data = snapshot_first, expiresAt = 60002\<rparr>"
    by (simp add: manager_after_first_def)
  have n: "now_check call_swapped < 60002"
    by (simp add: call_swapped_def)
  from pool_cache_single_fetch[of _ _ _ gateway_ok "new_PoolDataManager None" call_first
      snapshot_first manager_after_first "[call_swapped]"] getCompositePoolData_first
  obtain e where e: "poolCache manager_after_first (call_key call_first) = Some e"
    "(\<forall>c'\<in>set [call_swapped]. call_key c' = call_key call_first \<and> now_check c' < expiresAt e) \<longrightarrow>
       get_sequence gateway_ok manager_after_first [call_swapped]
         = (map (\<lambda>_. Inr snapshot_first) [call_swapped], manager_after_first)"
    by blast
  from e(1) p have "expiresAt e = 60002" by auto
  with e(2) n call_key_swapped
  have "get_sequence gateway_ok manager_after_first [call_swapped]
     = ([Inr snapshot_first], manager_after_first)"
    by simp
  with getCompositePoolData_first p call_key_swapped n show ?thesis
    by (simp add: manager_after_first_def)
qed

end
